theory Spec2Isabelle
  imports Complex_Main "HOL-Library.Char_ord" "HOL-Library.List_Lexorder"
begin

section \<open>Python values and exceptions\<close>

text \<open>
  The field types of \<^verbatim>\<open>baserow/contrib/database/fields/field_types.py\<close> receive arbitrary
  Python objects. The objects that reach the modelled methods are collected in one datatype;
  every \<^verbatim>\<open>raise\<close> of the source is a value of \<open>error\<close>. The message of a
  \<^verbatim>\<open>ValidationError\<close> is kept as a tag naming the message of the source.
\<close>

datatype validation_message =
    CannotBeNegative int
  | NotConvertedToDate
  | NotADateValue
  | MustBeAList
  | MissingFileName
  | VisibleNameNotString
  | NotAValidOption
  | InvalidURL
  | InvalidEmail

datatype error =
    ValidationError validation_message
  | InvalidOperation
  | TypeError
  | AttributeError
  | ValueError
  | OverflowError
  | UserFileDoesNotExist string
  | LinkRowTableNotProvided
  | LinkRowTableNotInSameDatabase int int
  | TableDoesNotExist int
  | UserNotInGroup
  | KeyError
  | CardinalityViolation

text \<open>
  \<^verbatim>\<open>decimal.Decimal\<close>: a sign (\<open>True\<close> is negative), a coefficient and an exponent, or one
  of the special values. The number denoted by \<open>Dec s c e\<close> is \<open>(-1)^s * c * 10^e\<close>.
\<close>

datatype decimal = Dec bool nat int | DecInfinity bool | DecNaN

text \<open>
  \<^verbatim>\<open>datetime.datetime\<close> is the wall-clock reading in microseconds (counted from a fixed
  origin) and the UTC offset in microseconds, \<open>None\<close> for a naive value.
  \<^verbatim>\<open>datetime.date\<close> is the day number counted from the same origin.
\<close>

record datetime =
  wall :: int
  utcoffset :: "int option"

record table =
  table_id :: int
  database_id :: int
  table_name :: string

record select_option =
  option_id :: int
  option_value :: string
  option_field_id :: int

datatype pyval =
    PNone
  | PBool bool
  | PInt int
  | PStr string
  | PDecimal decimal
  | PDate int
  | PDateTime datetime
  | PList "pyval list"
  | PDict "(string \<times> pyval) list"
  | PSelectOption select_option
  | PTable table
  | PField int

text \<open>Python's truth value of an object (\<^verbatim>\<open>bool(value)\<close>, \<^verbatim>\<open>not value\<close>).\<close>

fun is_zero :: "decimal \<Rightarrow> bool" where
  "is_zero (Dec s c e) = (c = 0)"
| "is_zero (DecInfinity s) = False"
| "is_zero DecNaN = False"

fun truthy :: "pyval \<Rightarrow> bool" where
  "truthy PNone = False"
| "truthy (PBool b) = b"
| "truthy (PInt i) = (i \<noteq> 0)"
| "truthy (PStr s) = (s \<noteq> [])"
| "truthy (PDecimal d) = (\<not> is_zero d)"
| "truthy (PDate d) = True"
| "truthy (PDateTime d) = True"
| "truthy (PList xs) = (xs \<noteq> [])"
| "truthy (PDict kvs) = (kvs \<noteq> [])"
| "truthy (PSelectOption opt) = True"
| "truthy (PTable t) = True"
| "truthy (PField f) = True"

text \<open>
  The library functions the field types call and that are not part of the repository are
  parameters of the model: the grammar of \<^verbatim>\<open>Decimal(str)\<close> and of \<^verbatim>\<open>Decimal(sequence)\<close>,
  \<^verbatim>\<open>dateutil.parser.parse\<close> (\<open>Inl None\<close> is \<^verbatim>\<open>ParserError\<close>, \<open>Inl (Some e)\<close> any other
  exception), the UTC offset of the process's local time zone at a naive wall-clock time, and
  Django's \<^verbatim>\<open>URLValidator\<close> and \<^verbatim>\<open>EmailValidator\<close> (\<open>None\<close> when the value passes,
  \<open>Some e\<close> when the call raises \<open>e\<close>).
\<close>

record library =
  decimal_of_str :: "string \<Rightarrow> decimal option"
  decimal_of_seq :: "pyval list \<Rightarrow> error + decimal"
  parser_parse :: "string \<Rightarrow> error option + datetime"
  local_utcoffset :: "int \<Rightarrow> int"
  url_validator :: "pyval \<Rightarrow> error option"
  email_validator :: "pyval \<Rightarrow> error option"

section \<open>Number fields\<close>

datatype number_type = NUMBER_TYPE_INTEGER | NUMBER_TYPE_DECIMAL

record number_field =
  number_field_id :: int
  number_type :: number_type
  number_decimal_places :: int
  number_negative :: bool

text \<open>\<^verbatim>\<open>Decimal(value)\<close>: the constructor of the standard library, by the class of its argument.\<close>

fun Decimal :: "library \<Rightarrow> pyval \<Rightarrow> error + decimal" where
  "Decimal lib (PDecimal d) = Inr d"
| "Decimal lib (PInt i) = Inr (Dec (i < 0) (nat \<bar>i\<bar>) 0)"
| "Decimal lib (PBool b) = Inr (Dec False (if b then 1 else 0) 0)"
| "Decimal lib (PStr s) =
     (case decimal_of_str lib s of None \<Rightarrow> Inl InvalidOperation | Some d \<Rightarrow> Inr d)"
| "Decimal lib (PList xs) = decimal_of_seq lib xs"
| "Decimal lib v = Inl TypeError"

text \<open>
  \<^verbatim>\<open>value < 0\<close> on a \<^verbatim>\<open>Decimal\<close>: an ordering comparison with a NaN signals
  \<^verbatim>\<open>InvalidOperation\<close>, which the default context raises.
\<close>

fun less_than_zero :: "decimal \<Rightarrow> error + bool" where
  "less_than_zero (Dec s c e) = Inr (s \<and> c \<noteq> 0)"
| "less_than_zero (DecInfinity s) = Inr s"
| "less_than_zero DecNaN = Inl InvalidOperation"

text \<open>
  \<^verbatim>\<open>NumberFieldType.prepare_value_for_db\<close>:
  \<^verbatim>\<open>
    if value is not None:
        value = Decimal(value)
    if value is not None and not instance.number_negative and value < 0:
        raise ValidationError(...)
    return value
  \<close>
\<close>

definition NumberFieldType_prepare_value_for_db ::
    "library \<Rightarrow> number_field \<Rightarrow> pyval \<Rightarrow> error + pyval" where
  "NumberFieldType_prepare_value_for_db lib instance v =
     (if v \<noteq> PNone then
        (case Decimal lib v of
           Inl e \<Rightarrow> Inl e
         | Inr d \<Rightarrow>
             if \<not> number_negative instance then
               (case less_than_zero d of
                  Inl e \<Rightarrow> Inl e
                | Inr neg \<Rightarrow>
                    if neg then Inl (ValidationError (CannotBeNegative (number_field_id instance)))
                    else Inr (PDecimal d))
             else Inr (PDecimal d))
      else Inr v)"

section \<open>Date fields\<close>

record date_field =
  date_field_id :: int
  date_format :: string
  date_include_time :: bool
  date_time_format :: string

definition microseconds_per_day :: int where
  "microseconds_per_day = 86400000000"

text \<open>\<^verbatim>\<open>value.astimezone(utc)\<close>: a naive value is read in the local time zone.\<close>

definition astimezone_utc :: "library \<Rightarrow> datetime \<Rightarrow> datetime" where
  "astimezone_utc lib d =
     (case utcoffset d of
        Some off \<Rightarrow> \<lparr>wall = wall d - off, utcoffset = Some 0\<rparr>
      | None \<Rightarrow> \<lparr>wall = wall d - local_utcoffset lib (wall d), utcoffset = Some 0\<rparr>)"

text \<open>\<^verbatim>\<open>make_aware(datetime(value.year, value.month, value.day), utc)\<close>: midnight UTC.\<close>

definition midnight_utc :: "int \<Rightarrow> datetime" where
  "midnight_utc day = \<lparr>wall = day * microseconds_per_day, utcoffset = Some 0\<rparr>"

text \<open>\<^verbatim>\<open>value.date()\<close>: the day of the wall-clock reading.\<close>

definition date_of :: "datetime \<Rightarrow> int" where
  "date_of d = wall d div microseconds_per_day"

text \<open>
  \<^verbatim>\<open>DateFieldType.prepare_value_for_db\<close>. The three \<^verbatim>\<open>if type(value) == ...\<close> tests run
  one after the other on the rebound \<^verbatim>\<open>value\<close>; a string is parsed to a datetime, a date is
  made a datetime, and only a datetime returns.
\<close>

definition datetime_result :: "library \<Rightarrow> date_field \<Rightarrow> datetime \<Rightarrow> pyval" where
  "datetime_result lib instance d =
     (let u = astimezone_utc lib d
      in if date_include_time instance then PDateTime u else PDate (date_of u))"

definition DateFieldType_prepare_value_for_db ::
    "library \<Rightarrow> date_field \<Rightarrow> pyval \<Rightarrow> error + pyval" where
  "DateFieldType_prepare_value_for_db lib instance v =
     (if \<not> truthy v then Inr v
      else
        (case v of
           PStr s \<Rightarrow>
             (case parser_parse lib s of
                Inl None \<Rightarrow> Inl (ValidationError NotConvertedToDate)
              | Inl (Some e) \<Rightarrow> Inl e
              | Inr d \<Rightarrow> Inr (datetime_result lib instance d))
         | PDate day \<Rightarrow> Inr (datetime_result lib instance (midnight_utc day))
         | PDateTime d \<Rightarrow> Inr (datetime_result lib instance d)
         | _ \<Rightarrow> Inl (ValidationError NotADateValue)))"

section \<open>URL and email fields\<close>

text \<open>
  \<^verbatim>\<open>URLFieldType.prepare_value_for_db\<close> and \<^verbatim>\<open>EmailFieldType.prepare_value_for_db\<close>:
  \<^verbatim>\<open>
    if value == '' or value is None:
        return ''
    validator = URLValidator()
    validator(value)
    return value
  \<close>
\<close>

definition URLFieldType_prepare_value_for_db :: "library \<Rightarrow> pyval \<Rightarrow> error + pyval" where
  "URLFieldType_prepare_value_for_db lib v =
     (if v = PStr [] \<or> v = PNone then Inr (PStr [])
      else (case url_validator lib v of Some e \<Rightarrow> Inl e | None \<Rightarrow> Inr v))"

definition EmailFieldType_prepare_value_for_db :: "library \<Rightarrow> pyval \<Rightarrow> error + pyval" where
  "EmailFieldType_prepare_value_for_db lib v =
     (if v = PStr [] \<or> v = PNone then Inr (PStr [])
      else (case email_validator lib v of Some e \<Rightarrow> Inl e | None \<Rightarrow> Inr v))"

section \<open>File fields\<close>

text \<open>
  A row of \<^verbatim>\<open>UserFile\<close>. The model class is not part of the sources: \<open>user_file_name\<close> is
  its \<^verbatim>\<open>name\<close> property and \<open>serialized\<close> is the dictionary that its \<^verbatim>\<open>serialize()\<close> returns.
\<close>

record user_file =
  user_file_name :: string
  original_name :: string
  serialized :: "(string \<times> pyval) list"

text \<open>Dictionaries: \<^verbatim>\<open>d.get(k)\<close> is \<open>map_of d k\<close>; \<^verbatim>\<open>d[k] = v\<close> is \<open>dict_set\<close>.\<close>

fun dict_set :: "(string \<times> pyval) list \<Rightarrow> string \<Rightarrow> pyval \<Rightarrow> (string \<times> pyval) list" where
  "dict_set [] k v = [(k, v)]"
| "dict_set ((k', v') # kvs) k v =
     (if k' = k then (k, v) # kvs else (k', v') # dict_set kvs k v)"

definition serialize :: "user_file \<Rightarrow> (string \<times> pyval) list" where
  "serialize f = serialized f"

text \<open>
  The first loop of \<^verbatim>\<open>FileFieldType.prepare_value_for_db\<close>: every provided object must
  carry a string \<^verbatim>\<open>name\<close> and, if it has one, a string \<^verbatim>\<open>visible_name\<close>. An object
  without a \<^verbatim>\<open>get\<close> method raises \<^verbatim>\<open>AttributeError\<close>.
\<close>

fun is_str :: "pyval \<Rightarrow> bool" where
  "is_str (PStr s) = True"
| "is_str v = False"

fun provided_files :: "pyval list \<Rightarrow> error + (string \<times> pyval) list list" where
  "provided_files [] = Inr []"
| "provided_files (PDict kvs # os) =
     (case map_of kvs ''name'' of
        Some (PStr n) \<Rightarrow>
          (case map_of kvs ''visible_name'' of
             Some vn \<Rightarrow>
               if \<not> is_str vn then Inl (ValidationError VisibleNameNotString)
               else (case provided_files os of Inl e \<Rightarrow> Inl e | Inr fs \<Rightarrow> Inr (kvs # fs))
           | None \<Rightarrow>
               (case provided_files os of Inl e \<Rightarrow> Inl e | Inr fs \<Rightarrow> Inr (kvs # fs)))
      | _ \<Rightarrow> Inl (ValidationError MissingFileName))"
| "provided_files (v # os) = Inl AttributeError"

text \<open>\<^verbatim>\<open>f['name']\<close> of a validated object.\<close>

definition file_name :: "(string \<times> pyval) list \<Rightarrow> string" where
  "file_name kvs = (case map_of kvs ''name'' of Some (PStr n) \<Rightarrow> n | _ \<Rightarrow> [])"

text \<open>\<^verbatim>\<open>file.get('visible_name') or user_file.original_name\<close>.\<close>

definition visible_name :: "(string \<times> pyval) list \<Rightarrow> user_file \<Rightarrow> pyval" where
  "visible_name kvs f =
     (case map_of kvs ''visible_name'' of
        Some vn \<Rightarrow> if truthy vn then vn else PStr (original_name f)
      | None \<Rightarrow> PStr (original_name f))"

text \<open>
  The second loop: each provided file is looked up by name in the queryset, serialized, and
  given its visible name; a name that no user file has raises \<^verbatim>\<open>UserFileDoesNotExist\<close>.
\<close>

fun user_files_of ::
    "user_file list \<Rightarrow> (string \<times> pyval) list list \<Rightarrow> error + pyval list" where
  "user_files_of queryset [] = Inr []"
| "user_files_of queryset (kvs # fs) =
     (case find (\<lambda>f. user_file_name f = file_name kvs) queryset of
        None \<Rightarrow> Inl (UserFileDoesNotExist (file_name kvs))
      | Some f \<Rightarrow>
          (case user_files_of queryset fs of
             Inl e \<Rightarrow> Inl e
           | Inr rest \<Rightarrow>
               Inr (PDict (dict_set (serialize f) ''visible_name'' (visible_name kvs f)) # rest)))"

text \<open>
  \<^verbatim>\<open>FileFieldType.prepare_value_for_db\<close>; \<open>all_user_files\<close> is the table behind
  \<^verbatim>\<open>UserFile.objects.all()\<close>, and \<^verbatim>\<open>.name(*names)\<close> keeps the rows with one of the names.
\<close>

definition FileFieldType_prepare_value_for_db ::
    "user_file list \<Rightarrow> pyval \<Rightarrow> error + pyval" where
  "FileFieldType_prepare_value_for_db all_user_files v =
     (case v of
        PNone \<Rightarrow> Inr (PList [])
      | PList os \<Rightarrow>
          if os = [] then Inr (PList [])
          else
            (case provided_files os of
               Inl e \<Rightarrow> Inl e
             | Inr fs \<Rightarrow>
                 (let queryset =
                        filter (\<lambda>f. user_file_name f \<in> set (map file_name fs)) all_user_files
                  in case user_files_of queryset fs of
                       Inl e \<Rightarrow> Inl e
                     | Inr r \<Rightarrow> Inr (PList r)))
      | _ \<Rightarrow> Inl (ValidationError MustBeAList))"

section \<open>Single select fields\<close>

record single_select_field =
  single_select_field_id :: int
  select_options :: "select_option list"

text \<open>
  \<^verbatim>\<open>SelectOption.objects.get(field=instance, id=value)\<close> over the table of all select
  options; \<open>None\<close> is \<^verbatim>\<open>SelectOption.DoesNotExist\<close>.
\<close>

definition get_select_option :: "select_option list \<Rightarrow> int \<Rightarrow> int \<Rightarrow> select_option option" where
  "get_select_option all_options fid i =
     find (\<lambda>opt. option_field_id opt = fid \<and> option_id opt = i) all_options"

text \<open>
  \<^verbatim>\<open>SingleSelectFieldType.prepare_value_for_db\<close>. A \<^verbatim>\<open>bool\<close> is an \<^verbatim>\<open>int\<close> in Python.
\<close>

definition select_option_or_invalid :: "int \<Rightarrow> pyval \<Rightarrow> error + pyval" where
  "select_option_or_invalid fid v =
     (case v of
        PSelectOption opt \<Rightarrow>
          if option_field_id opt = fid then Inr v else Inl (ValidationError NotAValidOption)
      | _ \<Rightarrow> Inl (ValidationError NotAValidOption))"

definition SingleSelectFieldType_prepare_value_for_db ::
    "select_option list \<Rightarrow> single_select_field \<Rightarrow> pyval \<Rightarrow> error + pyval" where
  "SingleSelectFieldType_prepare_value_for_db all_options instance v =
     (case v of
        PNone \<Rightarrow> Inr v
      | PInt i \<Rightarrow>
          (case get_select_option all_options (single_select_field_id instance) i of
             Some opt \<Rightarrow> Inr (PSelectOption opt)
           | None \<Rightarrow> select_option_or_invalid (single_select_field_id instance) v)
      | PBool b \<Rightarrow>
          (case get_select_option all_options (single_select_field_id instance)
                  (if b then 1 else 0) of
             Some opt \<Rightarrow> Inr (PSelectOption opt)
           | None \<Rightarrow> select_option_or_invalid (single_select_field_id instance) v)
      | _ \<Rightarrow> select_option_or_invalid (single_select_field_id instance) v)"

section \<open>The registry's dispatch of \<^verbatim>\<open>prepare_value_for_db\<close>\<close>

text \<open>
  A field instance, by its model class; \<^verbatim>\<open>field_type_registry.get_by_model\<close> finds the field
  type of an instance from that class. The relation of a link row field is taken up below.
\<close>

record link_row_field =
  link_row_table :: "table option"
  link_row_related_field :: "int option"
  link_row_relation_id :: "int option"

datatype field_model =
    TextField string
  | LongTextField
  | URLField
  | EmailField
  | NumberField number_field
  | BooleanField
  | DateField date_field
  | LinkRowField link_row_field
  | FileField
  | SingleSelectField single_select_field

text \<open>
  Modelled from the spec: \<^verbatim>\<open>FieldType.prepare_value_for_db\<close> of the base class
  (\<^verbatim>\<open>registries.py\<close> is not part of the sources), which the text, long text, boolean and
  link row types inherit; the capability methods have a documented default (no-op/identity)
  behaviour.
\<close>

definition FieldType_prepare_value_for_db :: "pyval \<Rightarrow> error + pyval" where
  "FieldType_prepare_value_for_db v = Inr v"

text \<open>The tables the coercions read: uploaded files and select options.\<close>

record stored =
  all_user_files :: "user_file list"
  all_select_options :: "select_option list"

fun prepare_value_for_db :: "library \<Rightarrow> stored \<Rightarrow> field_model \<Rightarrow> pyval \<Rightarrow> error + pyval" where
  "prepare_value_for_db lib db (TextField d) v = FieldType_prepare_value_for_db v"
| "prepare_value_for_db lib db LongTextField v = FieldType_prepare_value_for_db v"
| "prepare_value_for_db lib db URLField v = URLFieldType_prepare_value_for_db lib v"
| "prepare_value_for_db lib db EmailField v = EmailFieldType_prepare_value_for_db lib v"
| "prepare_value_for_db lib db (NumberField instance) v =
     NumberFieldType_prepare_value_for_db lib instance v"
| "prepare_value_for_db lib db BooleanField v = FieldType_prepare_value_for_db v"
| "prepare_value_for_db lib db (DateField instance) v =
     DateFieldType_prepare_value_for_db lib instance v"
| "prepare_value_for_db lib db (LinkRowField instance) v = FieldType_prepare_value_for_db v"
| "prepare_value_for_db lib db FileField v =
     FileFieldType_prepare_value_for_db (all_user_files db) v"
| "prepare_value_for_db lib db (SingleSelectField instance) v =
     SingleSelectFieldType_prepare_value_for_db (all_select_options db) instance v"

section \<open>Altering a column to a number field\<close>

text \<open>
  The hooks \<^verbatim>\<open>get_alter_column_prepare_old_value\<close> and \<^verbatim>\<open>get_alter_column_prepare_new_value\<close>
  return the text of a PL/pgSQL assignment \<^verbatim>\<open>p_in = <expression>;\<close>. The text is kept as
  the syntax tree of the expression: \<^verbatim>\<open>round(p_in::numeric, n)\<close> is
  \<open>Round_sql P_in_numeric n\<close> and \<^verbatim>\<open>greatest(a, b)\<close> is \<open>Greatest_sql a b\<close>.
\<close>

datatype numeric_sql =
    P_in_numeric
  | Numeric_literal int
  | Round_sql numeric_sql int
  | Greatest_sql numeric_sql numeric_sql

text \<open>
  Modelled from the spec: \<^verbatim>\<open>FieldType.get_alter_column_prepare_old_value\<close> and
  \<^verbatim>\<open>FieldType.get_alter_column_prepare_new_value\<close> of the base class (\<^verbatim>\<open>registries.py\<close> is not
  part of the sources): the default identity bridge, no expression (\<^verbatim>\<open>None\<close>).
\<close>

definition FieldType_get_alter_column_prepare_old_value :: "'a option" where
  "FieldType_get_alter_column_prepare_old_value = None"

definition FieldType_get_alter_column_prepare_new_value :: "'a option" where
  "FieldType_get_alter_column_prepare_new_value = None"

text \<open>
  \<^verbatim>\<open>NumberFieldType.get_alter_column_prepare_new_value\<close>:
  \<^verbatim>\<open>
    if connection.vendor == 'postgresql':
        decimal_places = 0
        if to_field.number_type == NUMBER_TYPE_DECIMAL:
            decimal_places = to_field.number_decimal_places
        function = f"round(p_in::numeric, {decimal_places})"
        if not to_field.number_negative:
            function = f"greatest({function}, 0)"
        return f'p_in = {function};'
    return super().get_alter_column_prepare_new_value(connection, from_field, to_field)
  \<close>
\<close>

definition NumberFieldType_get_alter_column_prepare_new_value ::
    "string \<Rightarrow> field_model \<Rightarrow> number_field \<Rightarrow> numeric_sql option" where
  "NumberFieldType_get_alter_column_prepare_new_value vendor from_field to_field =
     (if vendor = ''postgresql'' then
        (let decimal_places =
               (if number_type to_field = NUMBER_TYPE_DECIMAL
                then number_decimal_places to_field else 0);
             function = Round_sql P_in_numeric decimal_places;
             function =
               (if \<not> number_negative to_field
                then Greatest_sql function (Numeric_literal 0) else function)
         in Some function)
      else FieldType_get_alter_column_prepare_new_value)"

text \<open>
  The value of an expression for a numeric value \<open>x\<close> of \<^verbatim>\<open>p_in::numeric\<close>. PostgreSQL's
  \<^verbatim>\<open>round(numeric, integer)\<close> rounds to that many decimal places, ties away from zero.
\<close>

definition pg_round :: "rat \<Rightarrow> int \<Rightarrow> rat" where
  "pg_round x n =
     (let scale = (if 0 \<le> n then 10 ^ nat n else 1 / 10 ^ nat (- n))
      in sgn x * of_int \<lfloor>\<bar>x\<bar> * scale + 1 / 2\<rfloor> / scale)"

fun eval_numeric_sql :: "rat \<Rightarrow> numeric_sql \<Rightarrow> rat" where
  "eval_numeric_sql x P_in_numeric = x"
| "eval_numeric_sql x (Numeric_literal i) = of_int i"
| "eval_numeric_sql x (Round_sql e n) = pg_round (eval_numeric_sql x e) n"
| "eval_numeric_sql x (Greatest_sql a b) = max (eval_numeric_sql x a) (eval_numeric_sql x b)"

section \<open>The negative values of a number field after an update\<close>

text \<open>
  \<^verbatim>\<open>NumberFieldType.get_model_field\<close>: the physical column is a decimal column whose shape
  depends on the number type and the decimal places only.
\<close>

record decimal_column =
  max_digits :: int
  decimal_places :: int

definition MAX_DIGITS :: int where
  "MAX_DIGITS = 50"

definition NumberFieldType_get_model_field :: "number_field \<Rightarrow> decimal_column" where
  "NumberFieldType_get_model_field instance =
     (let places = (if number_type instance = NUMBER_TYPE_INTEGER then 0
                    else number_decimal_places instance)
      in \<lparr>max_digits = MAX_DIGITS + places, decimal_places = places\<rparr>)"

text \<open>
  The table of a generated model: the physical column of each field id, and the rows, each a
  map from a field id to the numeric value of \<^verbatim>\<open>field_<id>\<close> (\<open>None\<close> is \<^verbatim>\<open>NULL\<close>).
\<close>

record generated_model =
  model_columns :: "int \<Rightarrow> decimal_column option"
  model_rows :: "(int \<Rightarrow> rat option) list"

text \<open>\<^verbatim>\<open>from_field.number_negative\<close>: only a number field has the attribute.\<close>

fun number_negative_of :: "field_model \<Rightarrow> error + bool" where
  "number_negative_of (NumberField f) = Inr (number_negative f)"
| "number_negative_of f = Inl AttributeError"

text \<open>
  \<^verbatim>\<open>to_model.objects.filter(field_<id>__lt=0).update(field_<id>=0)\<close>: a \<^verbatim>\<open>NULL\<close> is not less
  than zero.
\<close>

definition set_negative_to_zero ::
    "int \<Rightarrow> (int \<Rightarrow> rat option) \<Rightarrow> (int \<Rightarrow> rat option)" where
  "set_negative_to_zero k row =
     (case row k of
        Some x \<Rightarrow> if x < 0 then row(k \<mapsto> 0) else row
      | None \<Rightarrow> row)"

text \<open>
  \<^verbatim>\<open>NumberFieldType.after_update\<close>:
  \<^verbatim>\<open>
    if (not altered_column and not to_field.number_negative and from_field.number_negative):
        to_model.objects.filter(...).update(...)
  \<close>
\<close>

definition NumberFieldType_after_update ::
    "field_model \<Rightarrow> number_field \<Rightarrow> generated_model \<Rightarrow> bool \<Rightarrow> error + generated_model" where
  "NumberFieldType_after_update from_field to_field to_model altered_column =
     (if \<not> altered_column \<and> \<not> number_negative to_field then
        (case number_negative_of from_field of
           Inl e \<Rightarrow> Inl e
         | Inr from_negative \<Rightarrow>
             if from_negative then
               Inr (to_model\<lparr>model_rows :=
                      map (set_negative_to_zero (number_field_id to_field)) (model_rows to_model)\<rparr>)
             else Inr to_model)
      else Inr to_model)"

section \<open>Converting a single select column\<close>

text \<open>\<^verbatim>\<open>str\<close> of a Python integer, as an f-string formats \<^verbatim>\<open>{option.id}\<close>.\<close>

definition digit_char :: "nat \<Rightarrow> char" where
  "digit_char n = char_of (48 + n)"

function digits :: "nat \<Rightarrow> string" where
  "digits n = (if n < 10 then [digit_char n] else digits (n div 10) @ [digit_char (n mod 10)])"
  by pat_completeness auto
termination
  by (relation "measure id") auto

declare digits.simps [simp del]

definition str :: "int \<Rightarrow> string" where
  "str i = (if i < 0 then CHR ''-'' # digits (nat (- i)) else digits (nat i))"

text \<open>
  The cast \<^verbatim>\<open>p_in::integer\<close> of a text in the form \<^verbatim>\<open>str\<close> writes: an optional minus sign
  and decimal digits. \<open>None\<close> is a failed cast.
\<close>

definition is_digit :: "char \<Rightarrow> bool" where
  "is_digit c \<longleftrightarrow> 48 \<le> (of_char c :: nat) \<and> (of_char c :: nat) \<le> 57"

definition number_of_digits :: "string \<Rightarrow> nat" where
  "number_of_digits ds = foldl (\<lambda>a c. 10 * a + (of_char c - 48)) 0 ds"

definition cast_integer :: "string \<Rightarrow> int option" where
  "cast_integer s =
     (case s of
        [] \<Rightarrow> None
      | c # ds \<Rightarrow>
          if c = CHR ''-'' then
            (if ds \<noteq> [] \<and> list_all is_digit ds then Some (- int (number_of_digits ds)) else None)
          else if list_all is_digit s then Some (int (number_of_digits s))
          else None)"

text \<open>
  The statements the single select hooks return have the form
  \<^verbatim>\<open>p_in = (SELECT value FROM (VALUES (k1, v1),(k2, v2)) AS values (key, value) WHERE key = w);\<close>
  they are kept as the list of rows \<open>(k, v)\<close> and the term \<open>w\<close>. A term is a quoted literal,
  a placeholder \<^verbatim>\<open>%(name)s\<close> for a query parameter, \<^verbatim>\<open>lower(...)\<close> or \<^verbatim>\<open>p_in\<close>.
\<close>

datatype sql_text =
    Text_literal string
  | Placeholder string
  | Lower sql_text
  | P_in

datatype select_value = Select_value "(sql_text \<times> sql_text) list" sql_text

text \<open>The name of a field type in the registry, by the model class of a field.\<close>

fun field_type_name :: "field_model \<Rightarrow> string" where
  "field_type_name (TextField d) = ''text''"
| "field_type_name LongTextField = ''long_text''"
| "field_type_name URLField = ''url''"
| "field_type_name EmailField = ''email''"
| "field_type_name (NumberField f) = ''number''"
| "field_type_name BooleanField = ''boolean''"
| "field_type_name (DateField f) = ''date''"
| "field_type_name (LinkRowField f) = ''link_row''"
| "field_type_name FileField = ''file''"
| "field_type_name (SingleSelectField f) = ''single_select''"

text \<open>\<^verbatim>\<open>variable_name = f'option_{option.id}_value'\<close>\<close>

definition variable_name :: "select_option \<Rightarrow> string" where
  "variable_name opt = ''option_'' @ str (option_id opt) @ ''_value''"

text \<open>
  The loop over the options: \<^verbatim>\<open>variables[variable_name] = option.value\<close> and
  \<^verbatim>\<open>values_mapping.append(...)\<close>, for the old value
  \<^verbatim>\<open>f"('{int(option.id)}', %({variable_name})s)"\<close> and for the new value
  \<^verbatim>\<open>f"(lower(%({variable_name})s), '{int(option.id)}')"\<close>.
\<close>

definition variables_of :: "select_option list \<Rightarrow> (string \<Rightarrow> string option)" where
  "variables_of opts = foldl (\<lambda>m opt. m(variable_name opt \<mapsto> option_value opt)) Map.empty opts"

definition old_values_mapping :: "select_option list \<Rightarrow> (sql_text \<times> sql_text) list" where
  "old_values_mapping opts =
     map (\<lambda>opt. (Text_literal (str (option_id opt)), Placeholder (variable_name opt))) opts"

definition new_values_mapping :: "select_option list \<Rightarrow> (sql_text \<times> sql_text) list" where
  "new_values_mapping opts =
     map (\<lambda>opt. (Lower (Placeholder (variable_name opt)), Text_literal (str (option_id opt)))) opts"

text \<open>
  \<^verbatim>\<open>SingleSelectFieldType.get_alter_column_prepare_old_value\<close>: the hook of the type of
  \<open>from_field\<close>; it returns \<^verbatim>\<open>None\<close> when the field has no options, the statement and its
  parameters otherwise, and the base class's hook when the new field is a single select field
  too or the database is not PostgreSQL.
\<close>

definition SingleSelectFieldType_get_alter_column_prepare_old_value ::
    "string \<Rightarrow> single_select_field \<Rightarrow> field_model \<Rightarrow>
     (select_value \<times> (string \<Rightarrow> string option)) option" where
  "SingleSelectFieldType_get_alter_column_prepare_old_value vendor from_field to_field =
     (if field_type_name to_field \<noteq> ''single_select'' \<and> vendor = ''postgresql'' then
        (let variables = variables_of (select_options from_field);
             values_mapping = old_values_mapping (select_options from_field)
         in if length values_mapping = 0 then None
            else Some (Select_value values_mapping P_in, variables))
      else FieldType_get_alter_column_prepare_old_value)"

text \<open>
  \<^verbatim>\<open>SingleSelectFieldType.get_alter_column_prepare_new_value\<close>: the hook of the type of
  \<open>to_field\<close>. Its last line calls the base class's \<^verbatim>\<open>get_alter_column_prepare_old_value\<close>.
\<close>

definition SingleSelectFieldType_get_alter_column_prepare_new_value ::
    "string \<Rightarrow> field_model \<Rightarrow> single_select_field \<Rightarrow>
     (select_value \<times> (string \<Rightarrow> string option)) option" where
  "SingleSelectFieldType_get_alter_column_prepare_new_value vendor from_field to_field =
     (if field_type_name from_field \<noteq> ''single_select'' \<and> vendor = ''postgresql'' then
        (let variables = variables_of (select_options to_field);
             values_mapping = new_values_mapping (select_options to_field)
         in if length values_mapping = 0 then None
            else Some (Select_value values_mapping (Lower P_in), variables))
      else FieldType_get_alter_column_prepare_old_value)"

text \<open>
  The meaning of a statement in PostgreSQL, for the text \<open>p\<close> of \<^verbatim>\<open>p_in\<close> (\<open>None\<close> is
  \<^verbatim>\<open>NULL\<close>) and the query parameters. Texts are taken to be ASCII: \<^verbatim>\<open>lower\<close> folds the
  letters \<^verbatim>\<open>A\<close> to \<^verbatim>\<open>Z\<close>. A
  comparison with \<^verbatim>\<open>NULL\<close> selects no row. A scalar subquery is \<^verbatim>\<open>NULL\<close> when no row is
  selected, the value of the row when one is, and an error when more than one row is.
\<close>

definition lower_char :: "char \<Rightarrow> char" where
  "lower_char c =
     (if 65 \<le> (of_char c :: nat) \<and> (of_char c :: nat) \<le> 90
      then char_of ((of_char c :: nat) + 32) else c)"

definition lower :: "string \<Rightarrow> string" where
  "lower s = map lower_char s"

fun eval_sql_text ::
    "(string \<Rightarrow> string option) \<Rightarrow> string option \<Rightarrow> sql_text \<Rightarrow> error + string option" where
  "eval_sql_text variables p (Text_literal s) = Inr (Some s)"
| "eval_sql_text variables p (Placeholder n) =
     (case variables n of None \<Rightarrow> Inl KeyError | Some s \<Rightarrow> Inr (Some s))"
| "eval_sql_text variables p (Lower t) =
     (case eval_sql_text variables p t of
        Inl e \<Rightarrow> Inl e
      | Inr r \<Rightarrow> Inr (map_option lower r))"
| "eval_sql_text variables p P_in = Inr p"

fun eval_rows ::
    "(string \<Rightarrow> string option) \<Rightarrow> string option \<Rightarrow> (sql_text \<times> sql_text) list \<Rightarrow>
     error + (string option \<times> string option) list" where
  "eval_rows variables p [] = Inr []"
| "eval_rows variables p ((k, v) # rows) =
     (case eval_sql_text variables p k of
        Inl e \<Rightarrow> Inl e
      | Inr k' \<Rightarrow>
          (case eval_sql_text variables p v of
             Inl e \<Rightarrow> Inl e
           | Inr v' \<Rightarrow>
               (case eval_rows variables p rows of
                  Inl e \<Rightarrow> Inl e
                | Inr rows' \<Rightarrow> Inr ((k', v') # rows'))))"

definition sql_equal :: "string option \<Rightarrow> string option \<Rightarrow> bool" where
  "sql_equal a b = (case (a, b) of (Some x, Some y) \<Rightarrow> x = y | _ \<Rightarrow> False)"

fun run_select ::
    "(string \<Rightarrow> string option) \<Rightarrow> select_value \<Rightarrow> string option \<Rightarrow> error + string option" where
  "run_select variables (Select_value rows w) p =
     (case eval_rows variables p rows of
        Inl e \<Rightarrow> Inl e
      | Inr rows' \<Rightarrow>
          (case eval_sql_text variables p w of
             Inl e \<Rightarrow> Inl e
           | Inr w' \<Rightarrow>
               (case filter (\<lambda>(k, v). sql_equal k w') rows' of
                  [] \<Rightarrow> Inr None
                | [(k, v)] \<Rightarrow> Inr v
                | _ \<Rightarrow> Inl CardinalityViolation)))"

section \<open>Ordering by a single select field\<close>

text \<open>
  \<^verbatim>\<open>SingleSelectFieldType.get_order\<close>. \<^verbatim>\<open>order_by('value')\<close> is the sort of the database by
  the option's text (here the stable sort by the order of strings); the \<^verbatim>\<open>Case\<close> expression is
  the list of its \<^verbatim>\<open>When(field_name=option, then=index)\<close> clauses.
  \<^verbatim>\<open>
    select_options = field.select_options.all().order_by('value')
    options = [select_option.pk for select_option in select_options]
    options.insert(0, None)
    if view_sort.order == 'DESC':
        options.reverse()
    order = Case(*[When(**{field_name: option, 'then': index})
                   for index, option in enumerate(options)])
  \<close>
\<close>

definition enumerate_options :: "int option list \<Rightarrow> (nat \<times> int option) list" where
  "enumerate_options options = zip [0..<length options] options"

definition SingleSelectFieldType_get_order :: "single_select_field \<Rightarrow> string \<Rightarrow> (int option \<times> nat) list" where
  "SingleSelectFieldType_get_order field view_sort_order =
     (let sorted_options = sort_key option_value (select_options field);
          options = map (\<lambda>opt. Some (option_id opt)) sorted_options;
          options = None # options;
          options = (if view_sort_order = ''DESC'' then rev options else options)
      in map (\<lambda>(index, option). (option, index)) (enumerate_options options))"

text \<open>
  The value of the \<^verbatim>\<open>Case\<close> expression on a row whose column holds \<open>v\<close>: the \<^verbatim>\<open>then\<close> of the
  first clause whose condition holds (\<^verbatim>\<open>field=None\<close> is \<^verbatim>\<open>IS NULL\<close>), \<^verbatim>\<open>NULL\<close> when none
  does.
\<close>

definition eval_case :: "(int option \<times> nat) list \<Rightarrow> int option \<Rightarrow> nat option" where
  "eval_case whens v = map_option snd (find (\<lambda>(option, index). option = v) whens)"

section \<open>Link row fields and the field handler\<close>

text \<open>
  A row of the \<^verbatim>\<open>Field\<close> table: the attributes every field has and, in \<open>specific\<close>, the model
  class with its own attributes. The database holds the tables, the membership test behind
  \<^verbatim>\<open>group.has_user\<close>, the field rows in the order of their creation, and the next primary key.
\<close>

record field =
  field_id :: int
  field_table :: table
  field_name :: string
  field_order :: int
  field_primary :: bool
  specific :: field_model

record database =
  table_rows :: "table list"
  has_user :: "int \<Rightarrow> table \<Rightarrow> bool"
  field_rows :: "field list"
  next_field_id :: int

text \<open>
  Modelled from the spec: \<^verbatim>\<open>TableHandler.get_table\<close> (not part of the sources), the resolver
  \<^verbatim>\<open>get_table(id) -> Table | TableNotFound\<close>.
\<close>

definition get_table :: "database \<Rightarrow> int \<Rightarrow> error + table" where
  "get_table db i =
     (case find (\<lambda>t. table_id t = i) (table_rows db) of
        None \<Rightarrow> Inl (TableDoesNotExist i)
      | Some t \<Rightarrow> Inr t)"

text \<open>
  \<^verbatim>\<open>LinkRowFieldType.prepare_values\<close>: a \<^verbatim>\<open>link_row_table\<close> given as an \<^verbatim>\<open>int\<close> (a \<^verbatim>\<open>bool\<close> is
  one) is replaced by the table with that id, after \<^verbatim>\<open>has_user(user, raise_error=True)\<close>.
\<close>

definition table_of_int ::
    "database \<Rightarrow> (string \<Rightarrow> pyval option) \<Rightarrow> int \<Rightarrow> int \<Rightarrow> error + (string \<Rightarrow> pyval option)" where
  "table_of_int db values user i =
     (case get_table db i of
        Inl e \<Rightarrow> Inl e
      | Inr t \<Rightarrow>
          if has_user db user t then Inr (values(''link_row_table'' \<mapsto> PTable t))
          else Inl UserNotInGroup)"

definition LinkRowFieldType_prepare_values ::
    "database \<Rightarrow> (string \<Rightarrow> pyval option) \<Rightarrow> int \<Rightarrow> error + (string \<Rightarrow> pyval option)" where
  "LinkRowFieldType_prepare_values db values user =
     (case values ''link_row_table'' of
        Some (PInt i) \<Rightarrow> table_of_int db values user i
      | Some (PBool b) \<Rightarrow> table_of_int db values user (if b then 1 else 0)
      | _ \<Rightarrow> Inr values)"

text \<open>
  \<^verbatim>\<open>LinkRowFieldType.before_create\<close>:
  \<^verbatim>\<open>
    if 'link_row_table' not in values or not values['link_row_table']:
        raise LinkRowTableNotProvided(...)
    link_row_table = values['link_row_table']
    if table.database_id != link_row_table.database_id:
        raise LinkRowTableNotInSameDatabase(...)
  \<close>
  A truthy value that is not a table has no \<^verbatim>\<open>database_id\<close>.
\<close>

definition LinkRowFieldType_before_create ::
    "table \<Rightarrow> bool \<Rightarrow> (string \<Rightarrow> pyval option) \<Rightarrow> int \<Rightarrow> int \<Rightarrow> error + unit" where
  "LinkRowFieldType_before_create tbl primary values order user =
     (case values ''link_row_table'' of
        None \<Rightarrow> Inl LinkRowTableNotProvided
      | Some v \<Rightarrow>
          if \<not> truthy v then Inl LinkRowTableNotProvided
          else
            (case v of
               PTable linked \<Rightarrow>
                 if database_id tbl \<noteq> database_id linked
                 then Inl (LinkRowTableNotInSameDatabase (table_id linked) (table_id tbl))
                 else Inr ()
             | _ \<Rightarrow> Inl AttributeError))"

text \<open>
  Modelled from the spec: the steps of \<^verbatim>\<open>FieldHandler.create_field\<close> for the type
  \<^verbatim>\<open>link_row\<close> (\<^verbatim>\<open>handler.py\<close> of the fields is not part of the sources). The allowed
  configuration attributes are taken from the keyword arguments; the order of the new field
  is one more than the largest order on its table; \<open>objects_create\<close> is
  \<^verbatim>\<open>model_class.objects.create\<close>, which gives the row the next primary key (the field is
  created with \<^verbatim>\<open>primary=False\<close>; the relation id that the model assigns when none is given
  is left as it is given); \<open>save\<close> is \<^verbatim>\<open>field.save()\<close>.
\<close>

definition allowed_fields :: "string list" where
  "allowed_fields = [''link_row_table'', ''link_row_related_field'', ''link_row_relation_id'']"

definition extract_allowed ::
    "(string \<Rightarrow> pyval option) \<Rightarrow> string list \<Rightarrow> (string \<Rightarrow> pyval option)" where
  "extract_allowed kwargs allowed = (\<lambda>k. if k \<in> set allowed then kwargs k else None)"

definition get_last_order :: "database \<Rightarrow> table \<Rightarrow> int" where
  "get_last_order db tbl =
     foldr (\<lambda>f m. max (field_order f) m)
       (filter (\<lambda>f. table_id (field_table f) = table_id tbl) (field_rows db)) 0 + 1"

definition table_value :: "pyval option \<Rightarrow> table option" where
  "table_value v = (case v of Some (PTable t) \<Rightarrow> Some t | _ \<Rightarrow> None)"

definition field_value :: "pyval option \<Rightarrow> int option" where
  "field_value v = (case v of Some (PField i) \<Rightarrow> Some i | _ \<Rightarrow> None)"

definition int_value :: "pyval option \<Rightarrow> int option" where
  "int_value v = (case v of Some (PInt i) \<Rightarrow> Some i | _ \<Rightarrow> None)"

definition str_value :: "pyval option \<Rightarrow> string" where
  "str_value v = (case v of Some (PStr s) \<Rightarrow> s | _ \<Rightarrow> [])"

definition objects_create ::
    "database \<Rightarrow> table \<Rightarrow> int \<Rightarrow> (string \<Rightarrow> pyval option) \<Rightarrow> field \<times> database" where
  "objects_create db tbl order values =
     (let instance =
            \<lparr>field_id = next_field_id db, field_table = tbl,
             field_name = str_value (values ''name''), field_order = order,
             field_primary = False,
             specific = LinkRowField
               \<lparr>link_row_table = table_value (values ''link_row_table''),
                link_row_related_field = field_value (values ''link_row_related_field''),
                link_row_relation_id = int_value (values ''link_row_relation_id'')\<rparr>\<rparr>
      in (instance, db\<lparr>field_rows := field_rows db @ [instance], next_field_id := next_field_id db + 1\<rparr>))"

definition save :: "database \<Rightarrow> field \<Rightarrow> database" where
  "save db f = db\<lparr>field_rows := map (\<lambda>g. if field_id g = field_id f then f else g) (field_rows db)\<rparr>"

definition link_row_of :: "field \<Rightarrow> link_row_field option" where
  "link_row_of f = (case specific f of LinkRowField l \<Rightarrow> Some l | _ \<Rightarrow> None)"

text \<open>
  The keyword arguments with which \<^verbatim>\<open>after_create\<close> creates the related field:
  \<^verbatim>\<open>name=field.table.name, link_row_table=field.table, link_row_related_field=field,
  link_row_relation_id=field.link_row_relation_id\<close>.
\<close>

definition related_field_kwargs :: "field \<Rightarrow> link_row_field \<Rightarrow> (string \<Rightarrow> pyval option)" where
  "related_field_kwargs f l =
     [''name'' \<mapsto> PStr (table_name (field_table f)),
      ''link_row_table'' \<mapsto> PTable (field_table f),
      ''link_row_related_field'' \<mapsto> PField (field_id f),
      ''link_row_relation_id'' \<mapsto> (case link_row_relation_id l of None \<Rightarrow> PNone | Some r \<Rightarrow> PInt r)]"

text \<open>
  The measure of the mutual recursion of \<^verbatim>\<open>create_field\<close> and \<^verbatim>\<open>after_create\<close> below: a
  creation that is given a related field makes no further creation.
\<close>

definition hops :: "pyval option \<Rightarrow> nat" where
  "hops v = (case field_value v of None \<Rightarrow> 1 | Some i \<Rightarrow> 0)"

definition creation_measure ::
    "database \<times> int \<times> table \<times> (string \<Rightarrow> pyval option) + database \<times> int \<times> field \<Rightarrow> nat" where
  "creation_measure x =
     (case x of
        Inl (db, user, tbl, kwargs) \<Rightarrow> 2 * hops (kwargs ''link_row_related_field'') + 1
      | Inr (db, user, f) \<Rightarrow>
          (case link_row_of f of
             None \<Rightarrow> 0
           | Some l \<Rightarrow> (case link_row_related_field l of None \<Rightarrow> 2 | Some r \<Rightarrow> 0)))"

lemma prepare_values_related:
  "LinkRowFieldType_prepare_values db values user = Inr values' \<Longrightarrow>
   values' ''link_row_related_field'' = values ''link_row_related_field''"
  by (auto simp: LinkRowFieldType_prepare_values_def table_of_int_def
      split: option.splits pyval.splits sum.splits if_splits)

text \<open>
  Modelled from the spec: \<^verbatim>\<open>FieldHandler.create_field\<close> for the type \<^verbatim>\<open>link_row\<close>, in the
  order of the lifecycle: \<^verbatim>\<open>prepare_values\<close> and \<^verbatim>\<open>before_create\<close> run, the \<^verbatim>\<open>Field\<close> row is
  created (a link row field has no physical column of its own), and \<^verbatim>\<open>after_create\<close> runs. A
  failing hook ends the creation with the database as it is at that moment.

  \<^verbatim>\<open>LinkRowFieldType.after_create\<close> is embedded from the source: it returns at once when the
  field has a related field; otherwise it calls \<^verbatim>\<open>FieldHandler().create_field\<close> on the linked
  table and saves the field with the related field it got. The two functions call each
  other, as in the source; the field that \<open>LinkRowFieldType_after_create\<close> returns is the
  instance that \<^verbatim>\<open>create_field\<close> returns.
\<close>

function create_field ::
    "database \<Rightarrow> int \<Rightarrow> table \<Rightarrow> (string \<Rightarrow> pyval option) \<Rightarrow> database \<times> (error + field)"
  and LinkRowFieldType_after_create :: "database \<Rightarrow> int \<Rightarrow> field \<Rightarrow> database \<times> (error + field)" where
  "create_field db user tbl kwargs =
     (let field_values = extract_allowed kwargs (''name'' # allowed_fields);
          last_order = get_last_order db tbl
      in case LinkRowFieldType_prepare_values db field_values user of
           Inl e \<Rightarrow> (db, Inl e)
         | Inr field_values \<Rightarrow>
             (case LinkRowFieldType_before_create tbl False field_values last_order user of
                Inl e \<Rightarrow> (db, Inl e)
              | Inr before \<Rightarrow>
                  (case objects_create db tbl last_order field_values of
                     (instance, db') \<Rightarrow> LinkRowFieldType_after_create db' user instance)))"
| "LinkRowFieldType_after_create db user f =
     (case link_row_of f of
        None \<Rightarrow> (db, Inl AttributeError)
      | Some l \<Rightarrow>
          (case link_row_related_field l of
             Some related \<Rightarrow> (db, Inr f)
           | None \<Rightarrow>
               (case link_row_table l of
                  None \<Rightarrow> (db, Inl AttributeError)
                | Some t \<Rightarrow>
                    (case create_field db user t (related_field_kwargs f l) of
                       (db', Inl e) \<Rightarrow> (db', Inl e)
                     | (db', Inr related) \<Rightarrow>
                         (let f' = f\<lparr>specific := LinkRowField
                                      (l\<lparr>link_row_related_field := Some (field_id related)\<rparr>)\<rparr>
                          in (save db' f', Inr f'))))))"
  by pat_completeness auto

termination create_field
proof (relation "measure creation_measure")
  show "wf (measure creation_measure)"
    by simp
next
  fix db :: database and user :: int and tbl kwargs x xa y xc yb
  assume "x = extract_allowed kwargs (''name'' # allowed_fields)"
    and "LinkRowFieldType_prepare_values db x user = Inr y"
    and "(xc, yb) = objects_create db tbl xa y"
  then show "(Inr (yb, user, xc), Inl (db, user, tbl, kwargs)) \<in> measure creation_measure"
    by (auto simp: creation_measure_def objects_create_def Let_def hops_def extract_allowed_def
        allowed_fields_def link_row_of_def dest!: prepare_values_related split: option.splits)
next
  fix db :: database and user :: int and f x2 x2a
  assume "link_row_of f = Some x2" "link_row_related_field x2 = None"
    "link_row_table x2 = Some x2a"
  then show "(Inl (db, user, x2a, related_field_kwargs f x2), Inr (db, user, f))
             \<in> measure creation_measure"
    by (simp add: creation_measure_def hops_def related_field_kwargs_def field_value_def)
qed

declare create_field.simps [simp del] LinkRowFieldType_after_create.simps [simp del]

text \<open>
  \<^verbatim>\<open>LinkRowFieldType.after_delete\<close>: \<^verbatim>\<open>field.link_row_related_field.delete()\<close>, where
  \<open>delete_row\<close> is the \<^verbatim>\<open>delete()\<close> of a model instance. A field without a related field
  has \<^verbatim>\<open>None\<close> there, which has no \<^verbatim>\<open>delete\<close>.
\<close>

definition delete_row :: "database \<Rightarrow> int \<Rightarrow> database" where
  "delete_row db i = db\<lparr>field_rows := filter (\<lambda>g. field_id g \<noteq> i) (field_rows db)\<rparr>"

definition LinkRowFieldType_after_delete :: "database \<Rightarrow> field \<Rightarrow> database \<times> (error + unit)" where
  "LinkRowFieldType_after_delete db f =
     (case link_row_of f of
        None \<Rightarrow> (db, Inl AttributeError)
      | Some l \<Rightarrow>
          (case link_row_related_field l of
             None \<Rightarrow> (db, Inl AttributeError)
           | Some related \<Rightarrow> (delete_row db related, Inr ())))"

text \<open>
  Modelled from the spec: \<^verbatim>\<open>FieldHandler.delete_field\<close> for the type \<^verbatim>\<open>link_row\<close> (not part
  of the sources): the \<^verbatim>\<open>Field\<close> row is deleted, then \<^verbatim>\<open>after_delete\<close> runs.
\<close>

definition delete_field :: "database \<Rightarrow> field \<Rightarrow> database \<times> (error + unit)" where
  "delete_field db f = LinkRowFieldType_after_delete (delete_row db (field_id f)) f"

text \<open>The field a link row field is paired with, looked up by the id it holds.\<close>

definition get_field :: "database \<Rightarrow> int \<Rightarrow> field option" where
  "get_field db i = find (\<lambda>g. field_id g = i) (field_rows db)"

definition pair :: "database \<Rightarrow> field \<Rightarrow> field option" where
  "pair db f =
     (case link_row_of f of
        None \<Rightarrow> None
      | Some l \<Rightarrow>
          (case link_row_related_field l of None \<Rightarrow> None | Some i \<Rightarrow> get_field db i))"


text \<open>
  The invariants of the field table: primary keys are distinct and below the next key, and
  every link row field has a pair whose pair it is.
\<close>

definition well_formed :: "database \<Rightarrow> bool" where
  "well_formed db \<longleftrightarrow>
     distinct (map field_id (field_rows db)) \<and>
     (\<forall>g \<in> set (field_rows db). field_id g < next_field_id db)"

definition symmetric_pairing :: "database \<Rightarrow> bool" where
  "symmetric_pairing db \<longleftrightarrow>
     (\<forall>f \<in> set (field_rows db). \<forall>l. link_row_of f = Some l \<longrightarrow>
        (\<exists>p. pair db f = Some p \<and> pair db p = Some f))"

section \<open>The bridge of a conversion to text\<close>


text \<open>Auxiliary notions for the ordering: the clauses of the \<^verbatim>\<open>Case\<close> and the ascending list.\<close>

definition when_clauses :: "int option list \<Rightarrow> (int option \<times> nat) list" where
  "when_clauses options = map (\<lambda>(index, option). (option, index)) (enumerate_options options)"

definition ascending_options :: "single_select_field \<Rightarrow> int option list" where
  "ascending_options field =
     None # map (\<lambda>opt. Some (option_id opt)) (sort_key option_value (select_options field))"

text \<open>
  What is assumed of \<^verbatim>\<open>UserFile.serialize\<close>: the dictionary of a file holds the file's name
  under \<^verbatim>\<open>'name'\<close>.
\<close>

definition serialized_name :: "user_file \<Rightarrow> bool" where
  "serialized_name f \<longleftrightarrow> map_of (serialized f) ''name'' = Some (PStr (user_file_name f))"

text \<open>What the first loop of the file coercion lets through.\<close>

definition valid_file :: "(string \<times> pyval) list \<Rightarrow> bool" where
  "valid_file kvs \<longleftrightarrow>
     (\<exists>n. map_of kvs ''name'' = Some (PStr n)) \<and>
     (\<forall>vn. map_of kvs ''visible_name'' = Some vn \<longrightarrow> is_str vn)"

section \<open>Example inputs\<close>

text \<open>A concrete library and concrete tables for evaluating the definitions.\<close>

definition example_library :: library where
  "example_library =
     \<lparr>decimal_of_str = (\<lambda>s. if s = ''-5'' then Some (Dec True 5 0)
                             else if s = ''NaN'' then Some DecNaN else None),
      decimal_of_seq = (\<lambda>xs. Inl ValueError),
      parser_parse = (\<lambda>s. if s = ''2020-01-15'' then Inr \<lparr>wall = 0, utcoffset = None\<rparr>
                           else Inl None),
      local_utcoffset = (\<lambda>w. 0),
      url_validator = (\<lambda>v. if v = PStr ''https://baserow.io'' then None
                            else Some (ValidationError InvalidURL)),
      email_validator = (\<lambda>v. if v = PStr ''bram@baserow.io'' then None
                              else Some (ValidationError InvalidEmail))\<rparr>"

definition example_stored :: stored where
  "example_stored =
     \<lparr>all_user_files =
        [\<lparr>user_file_name = ''a.png'', original_name = ''photo.png'',
          serialized = [(''name'', PStr ''a.png''), (''size'', PInt 10)]\<rparr>],
      all_select_options = []\<rparr>"

definition example_model :: generated_model where
  "example_model =
     \<lparr>model_columns = (\<lambda>k. None),
      model_rows = [(\<lambda>k. if k = 7 then Some (- 5) else None),
                    (\<lambda>k. if k = 7 then Some 3 else None)]\<rparr>"

definition example_number_field :: "bool \<Rightarrow> number_field" where
  "example_number_field negative =
     \<lparr>number_field_id = 7, number_type = NUMBER_TYPE_INTEGER, number_decimal_places = 0,
      number_negative = negative\<rparr>"

definition example_options :: "select_option list" where
  "example_options =
     [\<lparr>option_id = 1, option_value = ''Red'', option_field_id = 9\<rparr>,
      \<lparr>option_id = 2, option_value = ''Blue'', option_field_id = 9\<rparr>]"

definition colliding_options :: "select_option list" where
  "colliding_options =
     [\<lparr>option_id = 1, option_value = ''Red'', option_field_id = 9\<rparr>,
      \<lparr>option_id = 2, option_value = ''red'', option_field_id = 9\<rparr>]"

definition table1 :: table where
  "table1 = \<lparr>table_id = 1, database_id = 1, table_name = ''Table1''\<rparr>"

definition table2 :: table where
  "table2 = \<lparr>table_id = 2, database_id = 1, table_name = ''Table2''\<rparr>"

definition table3 :: table where
  "table3 = \<lparr>table_id = 3, database_id = 2, table_name = ''Table3''\<rparr>"

definition example_database :: database where
  "example_database =
     \<lparr>table_rows = [table1, table2, table3], has_user = (\<lambda>user t. True), field_rows = [],
      next_field_id = 1\<rparr>"

section \<open>Verified properties\<close>

subsection \<open>Date coercion of falsy values\<close>

text \<open>
  C10. For every date field configuration, \<^verbatim>\<open>prepare_value_for_db\<close> returns a falsy raw
  value (\<^verbatim>\<open>None\<close>, the empty string, zero, \<^verbatim>\<open>False\<close>, and every other object whose truth
  value is false) unchanged and raises nothing; the empty string is not parsed.
\<close>

theorem date_falsy_value_unchanged:
  "\<not> truthy v \<Longrightarrow> DateFieldType_prepare_value_for_db lib instance v = Inr v"
  by (simp add: DateFieldType_prepare_value_for_db_def)

theorem date_falsy_value_unchanged_witness:
  "\<not> truthy (PStr '''') \<and>
   parser_parse example_library '''' = Inl None \<and>
   DateFieldType_prepare_value_for_db example_library
     \<lparr>date_field_id = 1, date_format = ''ISO'', date_include_time = False,
      date_time_format = ''24''\<rparr> (PStr '''') = Inr (PStr '''')"
  using date_falsy_value_unchanged [of "PStr ''''" example_library]
  by (simp add: example_library_def)

subsection \<open>Number coercion\<close>

text \<open>
  C8 (amended). \<^verbatim>\<open>NumberFieldType.prepare_value_for_db\<close> returns \<^verbatim>\<open>None\<close> for \<^verbatim>\<open>None\<close>. For a
  raw value that \<^verbatim>\<open>Decimal\<close> parses to \<open>d\<close>: a field that allows negative values returns
  \<open>d\<close>; and when \<open>d\<close> is not a NaN (the comparison \<^verbatim>\<open>d < 0\<close> has a result), the call raises
  the validation error exactly when the field disallows negative values and \<open>d < 0\<close>, and
  returns \<open>d\<close> otherwise.
\<close>

theorem number_prepare_value_for_db_negative:
  "NumberFieldType_prepare_value_for_db lib instance PNone = Inr PNone \<and>
   (v \<noteq> PNone \<and> Decimal lib v = Inr d \<longrightarrow>
      (number_negative instance \<longrightarrow>
         NumberFieldType_prepare_value_for_db lib instance v = Inr (PDecimal d)) \<and>
      (\<forall>neg. less_than_zero d = Inr neg \<longrightarrow>
         NumberFieldType_prepare_value_for_db lib instance v =
           (if \<not> number_negative instance \<and> neg
            then Inl (ValidationError (CannotBeNegative (number_field_id instance)))
            else Inr (PDecimal d))))"
  by (simp add: NumberFieldType_prepare_value_for_db_def)

theorem number_prepare_value_for_db_negative_witness:
  "Decimal example_library (PStr ''-5'') = Inr (Dec True 5 0) \<and>
   less_than_zero (Dec True 5 0) = Inr True \<and>
   NumberFieldType_prepare_value_for_db example_library
     \<lparr>number_field_id = 7, number_type = NUMBER_TYPE_INTEGER, number_decimal_places = 0,
      number_negative = False\<rparr> (PStr ''-5'') = Inl (ValidationError (CannotBeNegative 7)) \<and>
   NumberFieldType_prepare_value_for_db example_library
     \<lparr>number_field_id = 7, number_type = NUMBER_TYPE_INTEGER, number_decimal_places = 0,
      number_negative = True\<rparr> (PStr ''-5'') = Inr (PDecimal (Dec True 5 0))"
proof -
  have p: "PStr ''-5'' \<noteq> PNone \<and> Decimal example_library (PStr ''-5'') = Inr (Dec True 5 0)"
    by (simp add: example_library_def)
  have l: "less_than_zero (Dec True 5 0) = Inr True"
    by simp
  show ?thesis
    using p l
      number_prepare_value_for_db_negative [of example_library
        "\<lparr>number_field_id = 7, number_type = NUMBER_TYPE_INTEGER, number_decimal_places = 0,
          number_negative = False\<rparr>" "PStr ''-5''" "Dec True 5 0"]
      number_prepare_value_for_db_negative [of example_library
        "\<lparr>number_field_id = 7, number_type = NUMBER_TYPE_INTEGER, number_decimal_places = 0,
          number_negative = True\<rparr>" "PStr ''-5''" "Dec True 5 0"]
    by auto
qed

text \<open>
  C8 as stated fails on a NaN: \<^verbatim>\<open>Decimal\<close> parses it, it is not less than zero, and a field
  that disallows negative values neither returns it nor raises the validation error: the
  comparison raises \<^verbatim>\<open>InvalidOperation\<close>.
\<close>

theorem number_prepare_value_for_db_nan:
  "Decimal example_library (PDecimal DecNaN) = Inr DecNaN \<and>
   NumberFieldType_prepare_value_for_db example_library
     \<lparr>number_field_id = 7, number_type = NUMBER_TYPE_INTEGER, number_decimal_places = 0,
      number_negative = False\<rparr> (PDecimal DecNaN) = Inl InvalidOperation"
  by (simp add: NumberFieldType_prepare_value_for_db_def)

subsection \<open>Idempotence of the coercions\<close>

lemma number_prepare_again:
  "NumberFieldType_prepare_value_for_db lib instance v = Inr w \<Longrightarrow>
   NumberFieldType_prepare_value_for_db lib instance w = Inr w"
  by (auto simp: NumberFieldType_prepare_value_for_db_def split: if_splits sum.splits)

lemma astimezone_utc_again:
  "astimezone_utc lib (astimezone_utc lib d) = astimezone_utc lib d"
  by (simp add: astimezone_utc_def split: option.splits)

lemma date_of_midnight_utc: "date_of (astimezone_utc lib (midnight_utc day)) = day"
  by (simp add: date_of_def astimezone_utc_def midnight_utc_def microseconds_per_day_def)

lemma datetime_result_again:
  "DateFieldType_prepare_value_for_db lib instance (datetime_result lib instance d) =
   Inr (datetime_result lib instance d)"
  by (simp add: DateFieldType_prepare_value_for_db_def datetime_result_def Let_def
      astimezone_utc_again date_of_midnight_utc)

lemma date_prepare_again:
  assumes "DateFieldType_prepare_value_for_db lib instance v = Inr w"
  shows "DateFieldType_prepare_value_for_db lib instance w = Inr w"
proof (cases "truthy v")
  case False
  with assms show ?thesis
    by (simp add: DateFieldType_prepare_value_for_db_def)
next
  case True
  with assms obtain d where "w = datetime_result lib instance d"
    by (auto simp: DateFieldType_prepare_value_for_db_def
        split: pyval.splits sum.splits option.splits)
  then show ?thesis
    by (simp add: datetime_result_again)
qed

lemma url_prepare_again:
  "URLFieldType_prepare_value_for_db lib v = Inr w \<Longrightarrow>
   URLFieldType_prepare_value_for_db lib w = Inr w"
  by (auto simp: URLFieldType_prepare_value_for_db_def split: if_splits option.splits)

lemma email_prepare_again:
  "EmailFieldType_prepare_value_for_db lib v = Inr w \<Longrightarrow>
   EmailFieldType_prepare_value_for_db lib w = Inr w"
  by (auto simp: EmailFieldType_prepare_value_for_db_def split: if_splits option.splits)

lemma single_select_prepare_again:
  "SingleSelectFieldType_prepare_value_for_db opts instance v = Inr w \<Longrightarrow>
   SingleSelectFieldType_prepare_value_for_db opts instance w = Inr w"
  by (auto simp: SingleSelectFieldType_prepare_value_for_db_def select_option_or_invalid_def
      get_select_option_def
      split: pyval.splits option.splits if_splits dest: find_Some_iff[THEN iffD1])

lemma map_of_dict_set:
  "map_of (dict_set d k v) k' = (if k' = k then Some v else map_of d k')"
  by (induction d k v rule: dict_set.induct) auto

lemma provided_files_valid:
  "provided_files os = Inr fs \<Longrightarrow> list_all valid_file fs"
proof (induction os arbitrary: fs rule: provided_files.induct)
  case 1
  then show ?case by simp
next
  case (2 kvs os)
  then show ?case
    by (auto simp: valid_file_def split: option.splits pyval.splits if_splits sum.splits)
qed simp_all

lemma is_str_visible_name: "valid_file kvs \<Longrightarrow> is_str (visible_name kvs f)"
  by (auto simp: valid_file_def visible_name_def split: option.splits)

lemma visible_name_again:
  "visible_name (dict_set (serialize f) ''visible_name'' (visible_name kvs f)) f =
   visible_name kvs f"
  by (auto simp: visible_name_def map_of_dict_set split: option.splits)

lemma file_name_serialized:
  "serialized_name f \<Longrightarrow>
   file_name (dict_set (serialize f) ''visible_name'' v) = user_file_name f"
  by (simp add: file_name_def map_of_dict_set serialize_def serialized_name_def)

lemma user_files_of_again:
  "list_all serialized_name queryset \<Longrightarrow>
   list_all valid_file fs \<Longrightarrow> user_files_of queryset fs = Inr r \<Longrightarrow>
   \<exists>fs'. provided_files r = Inr fs' \<and> map file_name fs' = map file_name fs \<and>
         user_files_of queryset fs' = Inr r"
proof (induction fs arbitrary: r)
  case Nil
  then show ?case by simp
next
  case (Cons kvs fs)
  from Cons.prems(3) obtain f r0 where
    f: "find (\<lambda>f. user_file_name f = file_name kvs) queryset = Some f" and
    r0: "user_files_of queryset fs = Inr r0" and
    r: "r = PDict (dict_set (serialize f) ''visible_name'' (visible_name kvs f)) # r0"
    by (auto split: option.splits sum.splits)
  from Cons.prems(2) have v: "valid_file kvs" and vs: "list_all valid_file fs"
    by simp_all
  from Cons.IH [OF Cons.prems(1) vs r0] obtain fs0 where
    p0: "provided_files r0 = Inr fs0" and n0: "map file_name fs0 = map file_name fs" and
    u0: "user_files_of queryset fs0 = Inr r0"
    by blast
  let ?d = "dict_set (serialize f) ''visible_name'' (visible_name kvs f)"
  from f have nf: "user_file_name f = file_name kvs" and fq: "f \<in> set queryset"
    by (auto simp: find_Some_iff)
  from fq Cons.prems(1) have sn: "serialized_name f"
    by (simp add: list_all_iff)
  have "provided_files r = Inr (?d # fs0)"
    using p0 is_str_visible_name [OF v, of f] sn
    by (simp add: r map_of_dict_set serialize_def serialized_name_def)
  moreover have "map file_name (?d # fs0) = map file_name (kvs # fs)"
    by (simp add: n0 file_name_serialized [OF sn] nf)
  moreover have "user_files_of queryset (?d # fs0) = Inr r"
    by (simp add: file_name_serialized [OF sn] nf f u0 visible_name_again r)
  ultimately show ?case
    by blast
qed

lemma file_prepare_again:
  assumes "FileFieldType_prepare_value_for_db files v = Inr w"
    and named: "list_all serialized_name files"
  shows "FileFieldType_prepare_value_for_db files w = Inr w"
proof -
  consider "w = PList []" |
    os fs r where "v = PList os" "provided_files os = Inr fs"
      "user_files_of (filter (\<lambda>f. user_file_name f \<in> set (map file_name fs)) files) fs = Inr r"
      "w = PList r"
    using assms(1)
    by (auto simp: FileFieldType_prepare_value_for_db_def Let_def
        split: pyval.splits if_splits sum.splits)
  then show ?thesis
  proof cases
    case 1
    then show ?thesis
      by (simp add: FileFieldType_prepare_value_for_db_def)
  next
    case 2
    from named
    have "list_all serialized_name
            (filter (\<lambda>f. user_file_name f \<in> set (map file_name fs)) files)"
      by (simp add: list_all_iff)
    from user_files_of_again [OF this provided_files_valid [OF 2(2)] 2(3)] obtain fs' where
      "provided_files r = Inr fs'" "map file_name fs' = map file_name fs"
      "user_files_of (filter (\<lambda>f. user_file_name f \<in> set (map file_name fs)) files) fs' = Inr r"
      by blast
    then show ?thesis
      by (simp add: FileFieldType_prepare_value_for_db_def 2(4))
  qed
qed

text \<open>
  C7. For every field type and every field configuration, \<^verbatim>\<open>prepare_value_for_db\<close> is
  idempotent: when the coercion of a raw value succeeds with \<open>w\<close>, the coercion of \<open>w\<close>
  succeeds and returns \<open>w\<close> again. For the file type this rests on the dictionary that
  \<^verbatim>\<open>UserFile.serialize\<close> returns holding the file's name.
\<close>

theorem prepare_value_for_db_idempotent:
  assumes named: "list_all serialized_name (all_user_files db)"
    and first: "prepare_value_for_db lib db field v = Inr w"
  shows "prepare_value_for_db lib db field w = Inr w"
proof (cases field)
  case (NumberField number)
  with first show ?thesis
    by (simp add: number_prepare_again)
next
  case (DateField date)
  with first show ?thesis
    by (simp add: date_prepare_again)
next
  case URLField
  with first show ?thesis
    by (simp add: url_prepare_again)
next
  case EmailField
  with first show ?thesis
    by (simp add: email_prepare_again)
next
  case FileField
  with first named show ?thesis
    by (simp add: file_prepare_again)
next
  case (SingleSelectField single_select)
  with first show ?thesis
    by (simp add: single_select_prepare_again)
qed (use first in \<open>simp_all add: FieldType_prepare_value_for_db_def\<close>)

theorem prepare_value_for_db_idempotent_witness:
  "prepare_value_for_db example_library example_stored FileField
     (PList [PDict [(''name'', PStr ''a.png'')]]) =
     Inr (PList [PDict [(''name'', PStr ''a.png''), (''size'', PInt 10),
                        (''visible_name'', PStr ''photo.png'')]]) \<and>
   prepare_value_for_db example_library example_stored FileField
     (PList [PDict [(''name'', PStr ''a.png''), (''size'', PInt 10),
                    (''visible_name'', PStr ''photo.png'')]]) =
     Inr (PList [PDict [(''name'', PStr ''a.png''), (''size'', PInt 10),
                        (''visible_name'', PStr ''photo.png'')]]) \<and>
   prepare_value_for_db example_library example_stored
     (DateField \<lparr>date_field_id = 1, date_format = ''ISO'', date_include_time = False,
                 date_time_format = ''24''\<rparr>) (PStr ''2020-01-15'') = Inr (PDate 0) \<and>
   prepare_value_for_db example_library example_stored
     (DateField \<lparr>date_field_id = 1, date_format = ''ISO'', date_include_time = False,
                 date_time_format = ''24''\<rparr>) (PDate 0) = Inr (PDate 0)"
proof -
  have named: "list_all serialized_name (all_user_files example_stored)"
    by (simp add: example_stored_def serialized_name_def)
  have on_file: "prepare_value_for_db example_library example_stored FileField
     (PList [PDict [(''name'', PStr ''a.png'')]]) =
     Inr (PList [PDict [(''name'', PStr ''a.png''), (''size'', PInt 10),
                        (''visible_name'', PStr ''photo.png'')]])"
    by (simp add: FileFieldType_prepare_value_for_db_def example_stored_def file_name_def
        visible_name_def serialize_def)
  have on_date: "prepare_value_for_db example_library example_stored
     (DateField \<lparr>date_field_id = 1, date_format = ''ISO'', date_include_time = False,
                 date_time_format = ''24''\<rparr>) (PStr ''2020-01-15'') = Inr (PDate 0)"
    by (simp add: DateFieldType_prepare_value_for_db_def datetime_result_def astimezone_utc_def
        date_of_def microseconds_per_day_def example_library_def)
  from on_file on_date prepare_value_for_db_idempotent [OF named on_file]
    prepare_value_for_db_idempotent [OF named on_date]
  show ?thesis
    by simp
qed

subsection \<open>Conversion to a number field\<close>

text \<open>
  C4 (amended). On PostgreSQL, for every conversion to a number field and whatever the old
  field is, the new-value expression rounds the incoming value to the decimal places of the
  target field (zero places unless the number type is decimal) and floors the result at zero
  whenever the target field disallows negative values.
\<close>

theorem number_new_value_rounds_and_floors:
  "\<exists>e. NumberFieldType_get_alter_column_prepare_new_value ''postgresql'' from_field to_field
          = Some e \<and>
       eval_numeric_sql x e =
         (let places = (if number_type to_field = NUMBER_TYPE_DECIMAL
                        then number_decimal_places to_field else 0)
          in if number_negative to_field then pg_round x places
             else max (pg_round x places) 0)"
  by (simp add: NumberFieldType_get_alter_column_prepare_new_value_def Let_def)

theorem number_new_value_rounds_and_floors_witness:
  "\<exists>e. NumberFieldType_get_alter_column_prepare_new_value ''postgresql'' (TextField [])
          \<lparr>number_field_id = 7, number_type = NUMBER_TYPE_DECIMAL,
           number_decimal_places = 1, number_negative = False\<rparr> = Some e \<and>
       eval_numeric_sql (5 / 4) e = 13 / 10"
  using number_new_value_rounds_and_floors
    [of "TextField []" "\<lparr>number_field_id = 7, number_type = NUMBER_TYPE_DECIMAL,
           number_decimal_places = 1, number_negative = False\<rparr>" "5 / 4"]
  by (simp add: pg_round_def)

text \<open>
  C4 as stated fails: the old field disallows negative values already (or is a text field
  and has no such flag), so negative values are not newly disallowed, and the expression
  still floors at zero: \<open>-5\<close> becomes \<open>0\<close>.
\<close>

theorem number_new_value_floors_when_not_newly_disallowed:
  "NumberFieldType_get_alter_column_prepare_new_value ''postgresql''
     (NumberField \<lparr>number_field_id = 7, number_type = NUMBER_TYPE_INTEGER,
                   number_decimal_places = 0, number_negative = False\<rparr>)
     \<lparr>number_field_id = 7, number_type = NUMBER_TYPE_DECIMAL,
      number_decimal_places = 2, number_negative = False\<rparr>
     = Some (Greatest_sql (Round_sql P_in_numeric 2) (Numeric_literal 0)) \<and>
   NumberFieldType_get_alter_column_prepare_new_value ''postgresql'' (TextField [])
     \<lparr>number_field_id = 7, number_type = NUMBER_TYPE_INTEGER,
      number_decimal_places = 0, number_negative = False\<rparr>
     = Some (Greatest_sql (Round_sql P_in_numeric 0) (Numeric_literal 0)) \<and>
   eval_numeric_sql (- 5) (Greatest_sql (Round_sql P_in_numeric 0) (Numeric_literal 0)) = 0 \<and>
   eval_numeric_sql (- 5) (Round_sql P_in_numeric 0) = - 5"
  using floor_divide_of_int_eq [of 11 2, where ?'a = rat]
  by (simp add: NumberFieldType_get_alter_column_prepare_new_value_def pg_round_def)

subsection \<open>Backfill of negative values\<close>

lemma set_negative_to_zero_apply:
  "set_negative_to_zero k row j =
     (if j = k \<and> (\<exists>x. row k = Some x \<and> x < 0) then Some 0 else row j)"
  by (auto simp: set_negative_to_zero_def split: option.splits)

text \<open>
  C3. For an update of a number field from a number field: when the column was not altered
  and the flag changes from allowing to disallowing negative values, \<^verbatim>\<open>after_update\<close> sets
  the field's value to zero in every row where it is strictly negative, and leaves every
  other value of every row (non-negative values, \<^verbatim>\<open>NULL\<close>s, other fields), the number of
  rows and the physical columns unchanged; when the column was altered, or the flag did not
  change in that direction, it changes nothing. The physical column of a number field does
  not depend on the flag.
\<close>

theorem number_after_update_backfills_negative:
  "(\<exists>m. NumberFieldType_after_update (NumberField from_field) to_field to_model altered_column
          = Inr m \<and>
       model_columns m = model_columns to_model \<and>
       length (model_rows m) = length (model_rows to_model) \<and>
       (if \<not> altered_column \<and> \<not> number_negative to_field \<and> number_negative from_field
        then \<forall>i < length (model_rows to_model). \<forall>k.
               (model_rows m ! i) k =
                 (if k = number_field_id to_field \<and>
                     (\<exists>x. (model_rows to_model ! i) k = Some x \<and> x < 0)
                  then Some 0 else (model_rows to_model ! i) k)
        else m = to_model)) \<and>
   NumberFieldType_get_model_field (to_field\<lparr>number_negative := b\<rparr>) =
         NumberFieldType_get_model_field to_field"
  by (auto simp: NumberFieldType_after_update_def set_negative_to_zero_apply
      NumberFieldType_get_model_field_def)

theorem number_after_update_backfills_negative_witness:
  "\<exists>m. NumberFieldType_after_update (NumberField (example_number_field True))
          (example_number_field False) example_model False = Inr m \<and>
       (model_rows m ! 0) 7 = Some 0 \<and> (model_rows m ! 1) 7 = Some 3"
proof -
  from number_after_update_backfills_negative
         [of "example_number_field True" "example_number_field False" example_model False True]
  obtain m where
    m: "NumberFieldType_after_update (NumberField (example_number_field True))
          (example_number_field False) example_model False = Inr m" and
    rows: "\<forall>i < length (model_rows example_model). \<forall>k.
             (model_rows m ! i) k =
               (if k = number_field_id (example_number_field False) \<and>
                   (\<exists>x. (model_rows example_model ! i) k = Some x \<and> x < 0)
                then Some 0 else (model_rows example_model ! i) k)"
    by (auto simp: example_number_field_def)
  from rows [rule_format, of 0 7] have "(model_rows m ! 0) 7 = Some 0"
    by (simp add: example_model_def example_number_field_def)
  moreover from rows [rule_format, of 1 7] have "(model_rows m ! 1) 7 = Some 3"
    by (simp add: example_model_def example_number_field_def)
  ultimately show ?thesis
    using m by blast
qed

subsection \<open>Conversion between single select and text\<close>


lemma of_char_digit_char: "n < 10 \<Longrightarrow> (of_char (digit_char n) :: nat) = 48 + n"
  by (simp add: digit_char_def)

lemma is_digit_digit_char: "n < 10 \<Longrightarrow> is_digit (digit_char n)"
  by (simp add: is_digit_def of_char_digit_char)

lemma digits_not_Nil: "digits n \<noteq> []"
  by (subst digits.simps) simp

lemma list_all_is_digit_digits: "list_all is_digit (digits n)"
proof (induction n rule: digits.induct)
  case (1 n)
  show ?case
  proof (cases "n < 10")
    case True
    then show ?thesis
      by (subst digits.simps) (simp add: is_digit_digit_char)
  next
    case False
    with 1 show ?thesis
      by (subst digits.simps) (simp add: is_digit_digit_char)
  qed
qed

lemma number_of_digits_snoc:
  "number_of_digits (ds @ [c]) = 10 * number_of_digits ds + (of_char c - 48)"
  by (simp add: number_of_digits_def)

lemma number_of_digits_digits: "number_of_digits (digits n) = n"
proof (induction n rule: digits.induct)
  case (1 n)
  show ?case
  proof (cases "n < 10")
    case True
    then show ?thesis
      by (subst digits.simps) (simp add: number_of_digits_def of_char_digit_char)
  next
    case False
    with 1 have "number_of_digits (digits (n div 10)) = n div 10"
      by simp
    with False show ?thesis
      by (subst digits.simps) (simp add: number_of_digits_snoc of_char_digit_char)
  qed
qed

lemma minus_not_digit: "\<not> is_digit CHR ''-''"
  by (simp add: is_digit_def)

lemma cast_integer_str: "cast_integer (str i) = Some i"
proof (cases "i < 0")
  case True
  then show ?thesis
    by (simp add: cast_integer_def str_def digits_not_Nil list_all_is_digit_digits
        number_of_digits_digits)
next
  case False
  obtain c ds where d: "digits (nat i) = c # ds"
    using digits_not_Nil [of "nat i"] by (cases "digits (nat i)") auto
  from list_all_is_digit_digits [of "nat i"] d have "is_digit c"
    by simp
  with minus_not_digit have "c \<noteq> CHR ''-''"
    by auto
  with False d list_all_is_digit_digits [of "nat i"] number_of_digits_digits [of "nat i"]
  show ?thesis
    by (simp add: cast_integer_def str_def)
qed

lemma str_eq_iff: "str i = str j \<longleftrightarrow> i = j"
  by (metis cast_integer_str option.inject)

lemma variable_name_eq_iff:
  "variable_name a = variable_name b \<longleftrightarrow> option_id a = option_id b"
  by (simp add: variable_name_def str_eq_iff)

lemma variables_of_snoc:
  "variables_of (opts @ [x]) = (variables_of opts)(variable_name x \<mapsto> option_value x)"
  by (simp add: variables_of_def)

lemma variables_of_lookup:
  "distinct (map option_id opts) \<Longrightarrow> opt \<in> set opts \<Longrightarrow>
   variables_of opts (variable_name opt) = Some (option_value opt)"
proof (induction opts rule: rev_induct)
  case Nil
  then show ?case by simp
next
  case (snoc x xs)
  show ?case
  proof (cases "opt = x")
    case True
    then show ?thesis by (simp add: variables_of_snoc)
  next
    case False
    with snoc.prems have "opt \<in> set xs" "option_id opt \<noteq> option_id x"
      by (auto simp: image_iff)
    with snoc show ?thesis
      by (simp add: variables_of_snoc variable_name_eq_iff)
  qed
qed

lemma eval_rows_old:
  "(\<forall>opt \<in> set opts. variables (variable_name opt) = Some (option_value opt)) \<Longrightarrow>
   eval_rows variables p (old_values_mapping opts) =
     Inr (map (\<lambda>opt. (Some (str (option_id opt)), Some (option_value opt))) opts)"
  by (induction opts) (simp_all add: old_values_mapping_def)

lemma eval_rows_new:
  "(\<forall>opt \<in> set opts. variables (variable_name opt) = Some (option_value opt)) \<Longrightarrow>
   eval_rows variables p (new_values_mapping opts) =
     Inr (map (\<lambda>opt. (Some (lower (option_value opt)), Some (str (option_id opt)))) opts)"
  by (induction opts) (simp_all add: new_values_mapping_def)

lemma filter_distinct_key:
  "distinct (map f xs) \<Longrightarrow> x \<in> set xs \<Longrightarrow> filter (\<lambda>y. f y = f x) xs = [x]"
proof (induction xs)
  case Nil
  then show ?case by simp
next
  case (Cons a xs)
  show ?case
  proof (cases "a = x")
    case True
    with Cons.prems have "\<forall>y \<in> set xs. f y \<noteq> f x"
      by (auto simp: image_iff)
    then have "filter (\<lambda>y. f y = f x) xs = []"
      by (simp add: filter_empty_conv)
    with True show ?thesis by simp
  next
    case False
    with Cons.prems have "x \<in> set xs" "f a \<noteq> f x"
      by (auto simp: image_iff)
    with Cons show ?thesis by simp
  qed
qed

lemma run_old_value:
  assumes "distinct (map option_id opts)" "opt \<in> set opts"
  shows "run_select (variables_of opts) (Select_value (old_values_mapping opts) P_in)
           (Some (str (option_id opt))) = Inr (Some (option_value opt))"
proof -
  have "filter (\<lambda>(k, v). sql_equal k (Some (str (option_id opt))))
          (map (\<lambda>opt. (Some (str (option_id opt)), Some (option_value opt))) opts)
        = map (\<lambda>opt. (Some (str (option_id opt)), Some (option_value opt)))
            (filter (\<lambda>y. option_id y = option_id opt) opts)"
    by (simp add: filter_map comp_def sql_equal_def str_eq_iff)
  also have "\<dots> = [(Some (str (option_id opt)), Some (option_value opt))]"
    using filter_distinct_key [of option_id opts opt] assms by simp
  finally show ?thesis
    using assms by (simp add: eval_rows_old variables_of_lookup)
qed

lemma run_new_value:
  assumes "distinct (map option_id opts)" "distinct (map (\<lambda>opt. lower (option_value opt)) opts)"
    "opt \<in> set opts" "lower t = lower (option_value opt)"
  shows "run_select (variables_of opts) (Select_value (new_values_mapping opts) (Lower P_in))
           (Some t) = Inr (Some (str (option_id opt)))"
proof -
  have "filter (\<lambda>(k, v). sql_equal k (Some (lower t)))
          (map (\<lambda>opt. (Some (lower (option_value opt)), Some (str (option_id opt)))) opts)
        = map (\<lambda>opt. (Some (lower (option_value opt)), Some (str (option_id opt))))
            (filter (\<lambda>y. lower (option_value y) = lower (option_value opt)) opts)"
    by (simp add: filter_map comp_def sql_equal_def assms(4))
  also have "\<dots> = [(Some (lower (option_value opt)), Some (str (option_id opt)))]"
    using filter_distinct_key [of "\<lambda>opt. lower (option_value opt)" opts opt] assms by simp
  finally show ?thesis
    using assms by (simp add: eval_rows_new variables_of_lookup)
qed

lemma run_new_value_unmatched:
  assumes "distinct (map option_id opts)"
    "\<forall>opt \<in> set opts. lower (option_value opt) \<noteq> lower t"
  shows "run_select (variables_of opts) (Select_value (new_values_mapping opts) (Lower P_in))
           (Some t) = Inr None"
proof -
  have "filter (\<lambda>(k, v). sql_equal k (Some (lower t)))
          (map (\<lambda>opt. (Some (lower (option_value opt)), Some (str (option_id opt)))) opts) = []"
    using assms(2) by (auto simp: filter_empty_conv sql_equal_def)
  then show ?thesis
    using assms by (simp add: eval_rows_new variables_of_lookup)
qed

lemma old_values_mapping_eq_Nil [simp]: "old_values_mapping opts = [] \<longleftrightarrow> opts = []"
  by (simp add: old_values_mapping_def)

lemma new_values_mapping_eq_Nil [simp]: "new_values_mapping opts = [] \<longleftrightarrow> opts = []"
  by (simp add: new_values_mapping_def)

text \<open>
  C5 (amended). For a single select field with a non-empty option set whose option ids are
  distinct and whose lower-cased option texts are pairwise distinct, on PostgreSQL: the
  old-value statement of a conversion to text maps the text of each stored option id to that
  option's text; the new-value statement of a conversion from text maps every text that
  equals an option's text up to case to the text of that option's id, which casts back to
  the id, and maps a text that matches no option to \<^verbatim>\<open>NULL\<close>. So the round trip restores the
  original option.
\<close>

theorem single_select_text_round_trip:
  assumes "select_options field \<noteq> []"
    and "distinct (map option_id (select_options field))"
    and "distinct (map (\<lambda>opt. lower (option_value opt)) (select_options field))"
  shows "\<exists>old_sql old_variables new_sql new_variables.
     SingleSelectFieldType_get_alter_column_prepare_old_value ''postgresql'' field (TextField d)
       = Some (old_sql, old_variables) \<and>
     SingleSelectFieldType_get_alter_column_prepare_new_value ''postgresql'' (TextField d) field
       = Some (new_sql, new_variables) \<and>
     (\<forall>opt \<in> set (select_options field).
        run_select old_variables old_sql (Some (str (option_id opt)))
          = Inr (Some (option_value opt)) \<and>
        (\<forall>t. lower t = lower (option_value opt) \<longrightarrow>
           run_select new_variables new_sql (Some t) = Inr (Some (str (option_id opt)))) \<and>
        cast_integer (str (option_id opt)) = Some (option_id opt)) \<and>
     (\<forall>t. (\<forall>opt \<in> set (select_options field). lower (option_value opt) \<noteq> lower t) \<longrightarrow>
        run_select new_variables new_sql (Some t) = Inr None)"
  using assms
  by (simp add: SingleSelectFieldType_get_alter_column_prepare_old_value_def
      SingleSelectFieldType_get_alter_column_prepare_new_value_def Let_def
      run_old_value run_new_value run_new_value_unmatched cast_integer_str
      del: run_select.simps)

text \<open>
  C5 as stated fails for the options \<open>1: Red\<close> and \<open>2: red\<close>: the row of option 1 becomes the
  text \<open>Red\<close>, and on the way back the lower-cased text selects both rows of the \<^verbatim>\<open>VALUES\<close>
  list, so the scalar subquery fails instead of giving the id 1.
\<close>

theorem single_select_colliding_options:
  "distinct (map option_id colliding_options) \<and>
   map_option fst (SingleSelectFieldType_get_alter_column_prepare_new_value ''postgresql''
      (TextField []) \<lparr>single_select_field_id = 9, select_options = colliding_options\<rparr>)
     = Some (Select_value (new_values_mapping colliding_options) (Lower P_in)) \<and>
   run_select (variables_of colliding_options)
     (Select_value (old_values_mapping colliding_options) P_in) (Some (str 1))
     = Inr (Some ''Red'') \<and>
   run_select (variables_of colliding_options)
     (Select_value (new_values_mapping colliding_options) (Lower P_in)) (Some ''Red'')
     = Inl CardinalityViolation"
  by code_simp

theorem single_select_text_round_trip_witness:
  "run_select (variables_of example_options)
     (Select_value (old_values_mapping example_options) P_in) (Some (str 1))
     = Inr (Some ''Red'') \<and>
   run_select (variables_of example_options)
     (Select_value (new_values_mapping example_options) (Lower P_in)) (Some ''RED'')
     = Inr (Some (str 1)) \<and>
   cast_integer (str 1) = Some 1"
proof -
  let ?field = "\<lparr>single_select_field_id = 9, select_options = example_options\<rparr>"
  let ?red = "\<lparr>option_id = 1, option_value = ''Red'', option_field_id = 9\<rparr>"
  have a: "select_options ?field \<noteq> []"
    by (simp add: example_options_def)
  have b: "distinct (map option_id (select_options ?field))"
    by (simp add: example_options_def)
  have c: "distinct (map (\<lambda>opt. lower (option_value opt)) (select_options ?field))"
    by code_simp
  have m: "?red \<in> set (select_options ?field)"
    by (simp add: example_options_def)
  have l: "lower ''RED'' = lower (option_value ?red)"
    by code_simp
  from single_select_text_round_trip [OF a b c, of "[]"] obtain os ov ns nv where
    o: "SingleSelectFieldType_get_alter_column_prepare_old_value ''postgresql'' ?field
          (TextField []) = Some (os, ov)" and
    n: "SingleSelectFieldType_get_alter_column_prepare_new_value ''postgresql'' (TextField [])
          ?field = Some (ns, nv)" and
    r: "\<forall>opt \<in> set (select_options ?field).
          run_select ov os (Some (str (option_id opt))) = Inr (Some (option_value opt)) \<and>
          (\<forall>t. lower t = lower (option_value opt) \<longrightarrow>
             run_select nv ns (Some t) = Inr (Some (str (option_id opt)))) \<and>
          cast_integer (str (option_id opt)) = Some (option_id opt)"
    by blast
  from o a have os: "os = Select_value (old_values_mapping example_options) P_in"
    and ov: "ov = variables_of example_options"
    by (simp_all add: SingleSelectFieldType_get_alter_column_prepare_old_value_def Let_def)
  from n a have ns: "ns = Select_value (new_values_mapping example_options) (Lower P_in)"
    and nv: "nv = variables_of example_options"
    by (simp_all add: SingleSelectFieldType_get_alter_column_prepare_new_value_def Let_def)
  from bspec [OF r m] l show ?thesis
    unfolding os ov ns nv by simp
qed



subsection \<open>Ordering by the option text\<close>


lemma when_clauses_nth:
  "i < length xs \<Longrightarrow> when_clauses xs ! i = (xs ! i, i)"
  by (simp add: when_clauses_def enumerate_options_def)

lemma length_when_clauses: "length (when_clauses xs) = length xs"
  by (simp add: when_clauses_def enumerate_options_def)

lemma eval_case_nth:
  assumes "distinct xs" "i < length xs"
  shows "eval_case (when_clauses xs) (xs ! i) = Some i"
proof -
  have "find (\<lambda>(option, index). option = xs ! i) (when_clauses xs) = Some (xs ! i, i)"
    unfolding find_Some_iff
  proof (intro exI [of _ i] conjI allI impI)
    show "i < length (when_clauses xs)"
      using assms by (simp add: length_when_clauses)
    show "case when_clauses xs ! i of (option, index) \<Rightarrow> option = xs ! i"
      using assms by (simp add: when_clauses_nth)
    show "(xs ! i, i) = when_clauses xs ! i"
      using assms by (simp add: when_clauses_nth)
    fix j assume "j < i"
    with assms show "\<not> (case when_clauses xs ! j of (option, index) \<Rightarrow> option = xs ! i)"
      by (simp add: when_clauses_nth nth_eq_iff_index_eq)
  qed
  then show ?thesis
    by (simp add: eval_case_def)
qed

lemma eval_case_notin:
  assumes "v \<notin> set xs"
  shows "eval_case (when_clauses xs) v = None"
proof -
  have "find (\<lambda>(option, index). option = v) (when_clauses xs) = None"
    unfolding find_None_iff
    using assms by (auto simp: when_clauses_def enumerate_options_def dest: set_zip_rightD)
  then show ?thesis
    by (simp add: eval_case_def)
qed

lemma eval_case_rev:
  assumes "distinct xs"
  shows "eval_case (when_clauses (rev xs)) v =
         map_option (\<lambda>i. length xs - 1 - i) (eval_case (when_clauses xs) v)"
proof (cases "v \<in> set xs")
  case False
  then show ?thesis
    by (simp add: eval_case_notin)
next
  case True
  then obtain i where i: "i < length xs" "v = xs ! i"
    by (auto simp: in_set_conv_nth)
  then have "rev xs ! (length xs - 1 - i) = v"
    by (simp add: rev_nth)
  moreover have "length xs - 1 - i < length (rev xs)"
    using i by simp
  moreover have "distinct (rev xs)"
    using assms by simp
  ultimately have "eval_case (when_clauses (rev xs)) v = Some (length xs - 1 - i)"
    using eval_case_nth [of "rev xs" "length xs - 1 - i"] by simp
  with i assms show ?thesis
    by (simp add: eval_case_nth)
qed

lemma get_order_eq:
  "SingleSelectFieldType_get_order field ord =
     when_clauses (if ord = ''DESC'' then rev (ascending_options field)
                   else ascending_options field)"
  by (simp add: SingleSelectFieldType_get_order_def when_clauses_def ascending_options_def Let_def)

lemma distinct_map_sort_key:
  assumes "distinct (map f xs)"
  shows "distinct (map f (sort_key g xs))"
proof -
  have "card (set (map f (sort_key g xs))) = card (set (map f xs))"
    by simp
  also have "\<dots> = length (map f xs)"
    using assms by (rule distinct_card)
  also have "\<dots> = length (map f (sort_key g xs))"
    by simp
  finally show ?thesis
    by (rule card_distinct)
qed

lemma distinct_ascending_options:
  assumes "distinct (map option_id (select_options field))"
  shows "distinct (ascending_options field)"
proof -
  have "distinct (map option_id (sort_key option_value (select_options field)))"
    using assms by (rule distinct_map_sort_key)
  then have "distinct (map (\<lambda>opt. Some (option_id opt)) (sort_key option_value (select_options field)))"
    by (simp add: distinct_map inj_on_def)
  then show ?thesis
    by (auto simp: ascending_options_def)
qed

lemma length_ascending_options:
  "length (ascending_options field) = Suc (length (select_options field))"
  by (simp add: ascending_options_def)

lemma ascending_rank:
  assumes d: "distinct (map option_id (select_options field))"
    and a: "a \<in> set (select_options field)" and b: "b \<in> set (select_options field)"
    and less: "option_value a < option_value b"
  shows "\<exists>i j. eval_case (when_clauses (ascending_options field)) (Some (option_id a)) = Some i \<and>
               eval_case (when_clauses (ascending_options field)) (Some (option_id b)) = Some j \<and>
               0 < i \<and> i < j"
proof -
  let ?s = "sort_key option_value (select_options field)"
  from a obtain ia where ia: "ia < length ?s" "?s ! ia = a"
    by (metis in_set_conv_nth set_sort)
  from b obtain ib where ib: "ib < length ?s" "?s ! ib = b"
    by (metis in_set_conv_nth set_sort)
  have sorted: "sorted (map option_value ?s)"
    by (rule sorted_sort_key)
  have "ia < ib"
  proof (rule ccontr)
    assume "\<not> ia < ib"
    then have "ib \<le> ia" by simp
    with sorted ia have "map option_value ?s ! ib \<le> map option_value ?s ! ia"
      by (intro sorted_nth_mono) simp_all
    with ia ib \<open>ib \<le> ia\<close> have "option_value b \<le> option_value a"
      by simp
    with less show False by simp
  qed
  have da: "distinct (ascending_options field)"
    using d by (rule distinct_ascending_options)
  have "eval_case (when_clauses (ascending_options field)) (ascending_options field ! Suc ia) = Some (Suc ia)"
    using da ia by (intro eval_case_nth) (simp_all add: ascending_options_def)
  moreover have "ascending_options field ! Suc ia = Some (option_id a)"
    using ia by (simp add: ascending_options_def)
  moreover have "eval_case (when_clauses (ascending_options field)) (ascending_options field ! Suc ib) = Some (Suc ib)"
    using da ib by (intro eval_case_nth) (simp_all add: ascending_options_def)
  moreover have "ascending_options field ! Suc ib = Some (option_id b)"
    using ib by (simp add: ascending_options_def)
  ultimately show ?thesis
    using \<open>ia < ib\<close> by auto
qed

text \<open>
  C9. For a single select field (the ids of its options distinct) the \<^verbatim>\<open>Case\<close> expression of
  \<^verbatim>\<open>get_order\<close> ranks a row by the text of its option, not by the id: ascending, an empty cell
  has rank 0 and an option with a smaller text has a smaller positive rank than an option
  with a larger text; descending, the rank of every row value is the ascending rank
  subtracted from the number of options, the exact reverse (and a value that is no option of
  the field has no rank in either direction).
\<close>

theorem single_select_order_by_option_value:
  assumes "distinct (map option_id (select_options field))"
  shows "(ord \<noteq> ''DESC'' \<longrightarrow>
           eval_case (SingleSelectFieldType_get_order field ord) None = Some 0 \<and>
           (\<forall>a \<in> set (select_options field). \<forall>b \<in> set (select_options field).
              option_value a < option_value b \<longrightarrow>
              (\<exists>i j. eval_case (SingleSelectFieldType_get_order field ord) (Some (option_id a)) = Some i \<and>
                     eval_case (SingleSelectFieldType_get_order field ord) (Some (option_id b)) = Some j \<and>
                     0 < i \<and> i < j))) \<and>
         (\<forall>v. eval_case (SingleSelectFieldType_get_order field ''DESC'') v =
               map_option (\<lambda>i. length (select_options field) - i)
                 (eval_case (SingleSelectFieldType_get_order field ''ASC'') v))"
proof (intro conjI impI allI ballI)
  assume "ord \<noteq> ''DESC''"
  then show "eval_case (SingleSelectFieldType_get_order field ord) None = Some 0"
    using eval_case_nth [OF distinct_ascending_options [OF assms], of 0]
    by (simp add: get_order_eq length_ascending_options) (simp add: ascending_options_def)
next
  fix a b
  assume "ord \<noteq> ''DESC''" "a \<in> set (select_options field)" "b \<in> set (select_options field)"
    "option_value a < option_value b"
  then show "\<exists>i j. eval_case (SingleSelectFieldType_get_order field ord) (Some (option_id a)) = Some i \<and>
                   eval_case (SingleSelectFieldType_get_order field ord) (Some (option_id b)) = Some j \<and>
                   0 < i \<and> i < j"
    using ascending_rank [OF assms] by (simp add: get_order_eq)
next
  fix v
  show "eval_case (SingleSelectFieldType_get_order field ''DESC'') v =
        map_option (\<lambda>i. length (select_options field) - i)
          (eval_case (SingleSelectFieldType_get_order field ''ASC'') v)"
    using eval_case_rev [OF distinct_ascending_options [OF assms], of v]
    by (simp add: get_order_eq length_ascending_options)
qed

theorem single_select_order_by_option_value_witness:
  "eval_case (SingleSelectFieldType_get_order \<lparr>single_select_field_id = 9, select_options = example_options\<rparr> ''ASC'')
     (Some 2) = Some 1 \<and>
   eval_case (SingleSelectFieldType_get_order \<lparr>single_select_field_id = 9, select_options = example_options\<rparr> ''ASC'')
     (Some 1) = Some 2 \<and>
   eval_case (SingleSelectFieldType_get_order \<lparr>single_select_field_id = 9, select_options = example_options\<rparr> ''DESC'')
     (Some 2) = Some 1 \<and>
   eval_case (SingleSelectFieldType_get_order \<lparr>single_select_field_id = 9, select_options = example_options\<rparr> ''DESC'')
     (Some 1) = Some 0"
proof -
  let ?field = "\<lparr>single_select_field_id = 9, select_options = example_options\<rparr>"
  have d: "distinct (map option_id (select_options ?field))"
    by (simp add: example_options_def)
  have blue: "eval_case (SingleSelectFieldType_get_order ?field ''ASC'') (Some 2) = Some 1"
    by code_simp
  have red: "eval_case (SingleSelectFieldType_get_order ?field ''ASC'') (Some 1) = Some 2"
    by code_simp
  have n: "length (select_options ?field) = 2"
    by (simp add: example_options_def)
  from single_select_order_by_option_value [OF d, of "''ASC''"]
  have desc: "\<forall>v. eval_case (SingleSelectFieldType_get_order ?field ''DESC'') v =
                 map_option (\<lambda>i. length (select_options ?field) - i)
                   (eval_case (SingleSelectFieldType_get_order ?field ''ASC'') v)"
    by blast
  from desc [rule_format, of "Some 2"] desc [rule_format, of "Some 1"] blue red n
  show ?thesis
    by simp
qed

subsection \<open>Link row fields: preconditions and pairing\<close>



lemma before_create_same_database:
  "values ''link_row_table'' = Some (PTable lt) \<Longrightarrow> database_id tbl = database_id lt \<Longrightarrow>
   LinkRowFieldType_before_create tbl primary values order user = Inr ()"
  by (simp add: LinkRowFieldType_before_create_def)

lemma prepare_values_table:
  "values ''link_row_table'' = Some (PTable lt) \<Longrightarrow> LinkRowFieldType_prepare_values db values user = Inr values"
  by (simp add: LinkRowFieldType_prepare_values_def)

lemma after_create_paired:
  "specific p = LinkRowField l \<Longrightarrow> link_row_related_field l = Some r \<Longrightarrow>
   LinkRowFieldType_after_create db user p = (db, Inr p)"
  by (simp add: LinkRowFieldType_after_create.simps link_row_of_def)

lemma create_related_field:
  assumes "specific f = LinkRowField l" "database_id lt = database_id (field_table f)"
  shows "create_field db user lt (related_field_kwargs f l) =
     (db\<lparr>field_rows := field_rows db @
            [\<lparr>field_id = next_field_id db, field_table = lt,
              field_name = table_name (field_table f), field_order = get_last_order db lt,
              field_primary = False,
              specific = LinkRowField
                \<lparr>link_row_table = Some (field_table f),
                 link_row_related_field = Some (field_id f),
                 link_row_relation_id = link_row_relation_id l\<rparr>\<rparr>],
          next_field_id := next_field_id db + 1\<rparr>,
      Inr \<lparr>field_id = next_field_id db, field_table = lt,
              field_name = table_name (field_table f), field_order = get_last_order db lt,
              field_primary = False,
              specific = LinkRowField
                \<lparr>link_row_table = Some (field_table f),
                 link_row_related_field = Some (field_id f),
                 link_row_relation_id = link_row_relation_id l\<rparr>\<rparr>)"
proof -
  let ?vals = "extract_allowed (related_field_kwargs f l) (''name'' # allowed_fields)"
  have t: "?vals ''link_row_table'' = Some (PTable (field_table f))"
    by (simp add: extract_allowed_def allowed_fields_def related_field_kwargs_def)
  have r: "?vals ''link_row_related_field'' = Some (PField (field_id f))"
    by (simp add: extract_allowed_def allowed_fields_def related_field_kwargs_def)
  have n: "?vals ''name'' = Some (PStr (table_name (field_table f)))"
    by (simp add: extract_allowed_def allowed_fields_def related_field_kwargs_def)
  have i: "int_value (?vals ''link_row_relation_id'') = link_row_relation_id l"
    by (simp add: extract_allowed_def allowed_fields_def related_field_kwargs_def int_value_def
        split: option.splits)
  show ?thesis
    using assms
    by (simp add: create_field.simps [of db user lt] Let_def
        prepare_values_table [of "?vals" "field_table f", OF t]
        before_create_same_database [of "?vals" "field_table f", OF t]
        objects_create_def t r n i table_value_def
        field_value_def str_value_def after_create_paired)
qed

lemma find_append_rows:
  "find P (xs @ ys) = (case find P xs of None \<Rightarrow> find P ys | Some x \<Rightarrow> Some x)"
  by (induction xs) auto

lemma find_old_rows:
  "\<forall>g \<in> set rows. field_id g < n \<Longrightarrow> n \<le> i \<Longrightarrow> find (\<lambda>g. field_id g = i) rows = None"
  by (auto simp: find_None_iff)

lemma filter_old_rows:
  "\<forall>g \<in> set rows. field_id g < n \<Longrightarrow> n \<le> i \<Longrightarrow> filter (\<lambda>g. field_id g \<noteq> i) rows = rows"
  by (auto simp: filter_id_conv)

lemma map_old_rows:
  "\<forall>g \<in> set rows. field_id g < n \<Longrightarrow> n \<le> field_id f \<Longrightarrow>
   map (\<lambda>g. if field_id g = field_id f then f else g) rows = rows"
  by (induction rows) auto

lemma create_field_pairs:
  assumes t: "kwargs ''link_row_table'' = Some (PTable lt)"
    and d: "database_id lt = database_id tbl"
    and r: "field_value (kwargs ''link_row_related_field'') = None"
    and wf: "\<forall>g \<in> set (field_rows db). field_id g < next_field_id db"
  shows "\<exists>f p db' relation.
     create_field db user tbl kwargs = (db', Inr f) \<and>
     field_rows db' = field_rows db @ [f, p] \<and>
     next_field_id db' = next_field_id db + 2 \<and>
     field_id f = next_field_id db \<and> field_id p = next_field_id db + 1 \<and>
     field_table f = tbl \<and> field_table p = lt \<and> field_name p = table_name tbl \<and>
     specific f = LinkRowField \<lparr>link_row_table = Some lt,
       link_row_related_field = Some (field_id p), link_row_relation_id = relation\<rparr> \<and>
     specific p = LinkRowField \<lparr>link_row_table = Some tbl,
       link_row_related_field = Some (field_id f), link_row_relation_id = relation\<rparr> \<and>
     pair db' f = Some p \<and> pair db' p = Some f \<and>
     (\<exists>d. delete_field db' f = (d, Inr ()) \<and> field_rows d = field_rows db) \<and>
     (\<exists>d. delete_field db' p = (d, Inr ()) \<and> field_rows d = field_rows db)"
proof -
  let ?n = "next_field_id db"
  let ?vals = "extract_allowed kwargs (''name'' # allowed_fields)"
  define l0 where "l0 = \<lparr>link_row_table = Some lt, link_row_related_field = None,
    link_row_relation_id = int_value (kwargs ''link_row_relation_id'')\<rparr>"
  define f0 where "f0 = \<lparr>field_id = ?n, field_table = tbl,
    field_name = str_value (kwargs ''name''), field_order = get_last_order db tbl,
    field_primary = False, specific = LinkRowField l0\<rparr>"
  define db1 where "db1 = db\<lparr>field_rows := field_rows db @ [f0], next_field_id := ?n + 1\<rparr>"
  define p where "p = \<lparr>field_id = ?n + 1, field_table = lt,
    field_name = table_name tbl, field_order = get_last_order db1 lt, field_primary = False,
    specific = LinkRowField \<lparr>link_row_table = Some tbl, link_row_related_field = Some ?n,
      link_row_relation_id = int_value (kwargs ''link_row_relation_id'')\<rparr>\<rparr>"
  define db2 where "db2 = db1\<lparr>field_rows := field_rows db1 @ [p], next_field_id := ?n + 2\<rparr>"
  define f where "f = f0\<lparr>specific := LinkRowField (l0\<lparr>link_row_related_field := Some (?n + 1)\<rparr>)\<rparr>"
  have vt: "?vals ''link_row_table'' = Some (PTable lt)"
    using t by (simp add: extract_allowed_def allowed_fields_def)
  have vr: "field_value (?vals ''link_row_related_field'') = None"
    using r by (simp add: extract_allowed_def allowed_fields_def)
  have step1: "create_field db user tbl kwargs = LinkRowFieldType_after_create db1 user f0"
    using d
    by (simp add: create_field.simps [of db user tbl] Let_def
        prepare_values_table [of "?vals" lt, OF vt]
        before_create_same_database [of "?vals" lt, OF vt]
        objects_create_def vt vr table_value_def f0_def l0_def db1_def)
       (simp add: extract_allowed_def allowed_fields_def)
  have related: "create_field db1 user lt (related_field_kwargs f0 l0) = (db2, Inr p)"
    using create_related_field [of f0 l0 lt db1 user] d
    by (simp add: f0_def l0_def db1_def db2_def p_def)
  have l0: "link_row_of f0 = Some l0" "link_row_related_field l0 = None"
    "link_row_table l0 = Some lt"
    by (simp_all add: f0_def l0_def link_row_of_def)
  have "field_id p = ?n + 1"
    by (simp add: p_def)
  then have step2: "LinkRowFieldType_after_create db1 user f0 = (save db2 f, Inr f)"
    by (simp add: LinkRowFieldType_after_create.simps [of db1 user f0] l0 related f_def Let_def)
  have rows: "field_rows (save db2 f) = field_rows db @ [f, p]"
    using map_old_rows [OF wf, of f]
    by (simp add: save_def db2_def db1_def) (simp add: f_def f0_def p_def)
  have ids: "field_id f = ?n" "field_id p = ?n + 1"
    by (simp_all add: f_def f0_def p_def)
  have get_p: "get_field (save db2 f) (?n + 1) = Some p"
    using find_old_rows [OF wf, of "?n + 1"]
    by (simp add: get_field_def rows find_append_rows ids)
  have get_f: "get_field (save db2 f) ?n = Some f"
    using find_old_rows [OF wf, of "?n"]
    by (simp add: get_field_def rows find_append_rows ids)
  have related_f: "\<exists>l. link_row_of f = Some l \<and> link_row_related_field l = Some (?n + 1)"
    by (simp add: f_def f0_def l0_def link_row_of_def)
  have related_p: "\<exists>l. link_row_of p = Some l \<and> link_row_related_field l = Some ?n"
    by (simp add: p_def link_row_of_def)
  have pair_f: "pair (save db2 f) f = Some p"
    using related_f get_p by (auto simp: pair_def)
  have pair_p: "pair (save db2 f) p = Some f"
    using related_p get_f by (auto simp: pair_def)
  have rows_f: "field_rows (delete_row (delete_row (save db2 f) ?n) (?n + 1)) = field_rows db"
    using filter_old_rows [OF wf, of "?n"] filter_old_rows [OF wf, of "?n + 1"]
    by (simp add: delete_row_def rows ids)
  have rows_p: "field_rows (delete_row (delete_row (save db2 f) (?n + 1)) ?n) = field_rows db"
    using filter_old_rows [OF wf, of "?n"] filter_old_rows [OF wf, of "?n + 1"]
    by (simp add: delete_row_def rows ids)
  have del_f: "delete_field (save db2 f) f =
                 (delete_row (delete_row (save db2 f) ?n) (?n + 1), Inr ())"
    using related_f by (auto simp: delete_field_def LinkRowFieldType_after_delete_def ids)
  have del_p: "delete_field (save db2 f) p =
                 (delete_row (delete_row (save db2 f) (?n + 1)) ?n, Inr ())"
    using related_p by (auto simp: delete_field_def LinkRowFieldType_after_delete_def ids)
  show ?thesis
  proof (intro exI conjI)
    show "create_field db user tbl kwargs = (save db2 f, Inr f)"
      by (simp add: step1 step2)
    show "field_rows (save db2 f) = field_rows db @ [f, p]"
      by (rule rows)
    show "next_field_id (save db2 f) = next_field_id db + 2"
      by (simp add: save_def db2_def)
    show "field_id f = next_field_id db" "field_id p = next_field_id db + 1"
      by (rule ids)+
    show "field_table f = tbl" "field_table p = lt" "field_name p = table_name tbl"
      by (simp_all add: f_def f0_def p_def)
    show "specific f = LinkRowField \<lparr>link_row_table = Some lt,
       link_row_related_field = Some (field_id p),
       link_row_relation_id = int_value (kwargs ''link_row_relation_id'')\<rparr>"
      by (simp add: f_def f0_def l0_def p_def)
    show "specific p = LinkRowField \<lparr>link_row_table = Some tbl,
       link_row_related_field = Some (field_id f),
       link_row_relation_id = int_value (kwargs ''link_row_relation_id'')\<rparr>"
      by (simp add: f_def f0_def p_def)
    show "pair (save db2 f) f = Some p" "pair (save db2 f) p = Some f"
      by (rule pair_f, rule pair_p)
    show "delete_field (save db2 f) f =
            (delete_row (delete_row (save db2 f) ?n) (?n + 1), Inr ())"
      by (rule del_f)
    show "field_rows (delete_row (delete_row (save db2 f) ?n) (?n + 1)) = field_rows db"
      by (rule rows_f)
    show "delete_field (save db2 f) p =
            (delete_row (delete_row (save db2 f) (?n + 1)) ?n, Inr ())"
      by (rule del_p)
    show "field_rows (delete_row (delete_row (save db2 f) (?n + 1)) ?n) = field_rows db"
      by (rule rows_p)
  qed
qed


lemma find_distinct_key:
  "distinct (map k xs) \<Longrightarrow> x \<in> set xs \<Longrightarrow> find (\<lambda>y. k y = k x) xs = Some x"
  by (induction xs) (auto simp: image_iff)

lemma get_field_member:
  "well_formed db \<Longrightarrow> g \<in> set (field_rows db) \<Longrightarrow> get_field db (field_id g) = Some g"
  by (simp add: well_formed_def get_field_def find_distinct_key)

lemma get_field_SomeD:
  "get_field db i = Some g \<Longrightarrow> g \<in> set (field_rows db) \<and> field_id g = i"
  by (auto simp: get_field_def find_Some_iff)

lemma pair_SomeD:
  "pair db f = Some p \<Longrightarrow>
   \<exists>l. link_row_of f = Some l \<and> link_row_related_field l = Some (field_id p) \<and>
       p \<in> set (field_rows db)"
  by (auto simp: pair_def split: option.splits dest: get_field_SomeD)

lemma pair_eq:
  "well_formed db \<Longrightarrow> link_row_of f = Some l \<Longrightarrow>
   link_row_related_field l = Some (field_id p) \<Longrightarrow> p \<in> set (field_rows db) \<Longrightarrow>
   pair db f = Some p"
  by (simp add: pair_def get_field_member)

lemma well_formed_append:
  assumes "well_formed db" "field_rows db' = field_rows db @ [f, p]"
    "next_field_id db' = next_field_id db + 2"
    "field_id f = next_field_id db" "field_id p = next_field_id db + 1"
  shows "well_formed db'"
  using assms by (auto simp: well_formed_def)

lemma symmetric_pairing_append:
  assumes wf: "well_formed db" and wf': "well_formed db'" and s: "symmetric_pairing db"
    and rows: "field_rows db' = field_rows db @ [f, p]"
    and f: "pair db' f = Some p" and p: "pair db' p = Some f"
  shows "symmetric_pairing db'"
  unfolding symmetric_pairing_def
proof (intro ballI allI impI)
  fix g l
  assume g: "g \<in> set (field_rows db')" and l: "link_row_of g = Some l"
  show "\<exists>q. pair db' g = Some q \<and> pair db' q = Some g"
  proof (cases "g \<in> set (field_rows db)")
    case True
    with s l obtain q where q: "pair db g = Some q" "pair db q = Some g"
      by (auto simp: symmetric_pairing_def)
    from pair_SomeD [OF q(1)] pair_SomeD [OF q(2)] True rows
    have "pair db' g = Some q" "pair db' q = Some g"
      by (auto intro!: pair_eq [OF wf'])
    then show ?thesis
      by blast
  next
    case False
    with g rows have "g = f \<or> g = p"
      by auto
    with f p show ?thesis
      by auto
  qed
qed

lemma delete_field_paired:
  assumes wf: "well_formed db" and s: "symmetric_pairing db"
    and f: "f \<in> set (field_rows db)" and l: "link_row_of f = Some l"
  shows "\<exists>p d. pair db f = Some p \<and> pair db p = Some f \<and>
     delete_field db f = (d, Inr ()) \<and>
     field_rows d =
       filter (\<lambda>g. field_id g \<noteq> field_id f \<and> field_id g \<noteq> field_id p) (field_rows db) \<and>
     well_formed d \<and> symmetric_pairing d"
proof -
  from s f l obtain p where p: "pair db f = Some p" "pair db p = Some f"
    by (auto simp: symmetric_pairing_def)
  from pair_SomeD [OF p(1)] l have rel: "link_row_related_field l = Some (field_id p)"
    and pin: "p \<in> set (field_rows db)"
    by auto
  define d where "d = delete_row (delete_row db (field_id f)) (field_id p)"
  have del: "delete_field db f = (d, Inr ())"
    by (simp add: delete_field_def LinkRowFieldType_after_delete_def l rel d_def)
  have rows: "field_rows d =
       filter (\<lambda>g. field_id g \<noteq> field_id f \<and> field_id g \<noteq> field_id p) (field_rows db)"
    by (auto simp: d_def delete_row_def intro: filter_cong)
  have next_id: "next_field_id d = next_field_id db"
    by (simp add: d_def delete_row_def)
  have wfd: "well_formed d"
    using wf by (auto simp: well_formed_def rows next_id distinct_map_filter)
  have unique: "\<And>a b. a \<in> set (field_rows db) \<Longrightarrow> b \<in> set (field_rows db) \<Longrightarrow>
                  field_id a = field_id b \<Longrightarrow> a = b"
    using wf by (auto simp: well_formed_def distinct_map inj_on_def)
  have "symmetric_pairing d"
    unfolding symmetric_pairing_def
  proof (intro ballI allI impI)
    fix g lg
    assume g: "g \<in> set (field_rows d)" and lg: "link_row_of g = Some lg"
    from g rows have gin: "g \<in> set (field_rows db)"
      and gf: "field_id g \<noteq> field_id f" and gp: "field_id g \<noteq> field_id p"
      by auto
    from s gin lg obtain q where q: "pair db g = Some q" "pair db q = Some g"
      by (auto simp: symmetric_pairing_def)
    from pair_SomeD [OF q(1)] have qin: "q \<in> set (field_rows db)"
      by auto
    have "field_id q \<noteq> field_id f"
    proof
      assume "field_id q = field_id f"
      with unique [OF qin f] have "q = f" by simp
      with q(2) p(1) have "g = p" by simp
      with gp show False by simp
    qed
    moreover have "field_id q \<noteq> field_id p"
    proof
      assume "field_id q = field_id p"
      with unique [OF qin pin] have "q = p" by simp
      with q(2) p(2) have "g = f" by simp
      with gf show False by simp
    qed
    ultimately have qd: "q \<in> set (field_rows d)"
      using qin by (simp add: rows)
    from pair_SomeD [OF q(1)] pair_SomeD [OF q(2)] g qd
    have "pair d g = Some q" "pair d q = Some g"
      by (auto intro!: pair_eq [OF wfd])
    then show "\<exists>q. pair d g = Some q \<and> pair d q = Some g"
      by blast
  qed
  with p del rows wfd show ?thesis
    by blast
qed

text \<open>
  C2. In a database whose link row fields are paired symmetrically (following the pairing
  twice returns the field) and whose primary keys are distinct and below the next key:
  creating a link row field with a linked table of the same database and no related field
  given creates exactly two rows, the field and its related field on the linked table (named
  after the field's table, linking back to it, sharing the relation id), since the nested
  creation is given the back-reference and creates nothing further; the two hold each
  other's id and the pairing stays symmetric for every field. Deleting any link row field
  deletes exactly that field and its pair, and the pairing of the remaining fields stays
  symmetric.
\<close>

theorem link_row_pairing:
  assumes wf: "well_formed db" and s: "symmetric_pairing db"
  shows "(kwargs ''link_row_table'' = Some (PTable lt) \<and> database_id lt = database_id tbl \<and>
          field_value (kwargs ''link_row_related_field'') = None \<longrightarrow>
          (\<exists>f p db' relation.
             create_field db user tbl kwargs = (db', Inr f) \<and>
             field_rows db' = field_rows db @ [f, p] \<and>
             field_table f = tbl \<and> field_table p = lt \<and> field_name p = table_name tbl \<and>
             specific f = LinkRowField \<lparr>link_row_table = Some lt,
               link_row_related_field = Some (field_id p), link_row_relation_id = relation\<rparr> \<and>
             specific p = LinkRowField \<lparr>link_row_table = Some tbl,
               link_row_related_field = Some (field_id f), link_row_relation_id = relation\<rparr> \<and>
             pair db' f = Some p \<and> pair db' p = Some f \<and>
             well_formed db' \<and> symmetric_pairing db')) \<and>
         (\<forall>f \<in> set (field_rows db). \<forall>l. link_row_of f = Some l \<longrightarrow>
            (\<exists>p d. pair db f = Some p \<and> pair db p = Some f \<and>
               delete_field db f = (d, Inr ()) \<and>
               field_rows d =
                 filter (\<lambda>g. field_id g \<noteq> field_id f \<and> field_id g \<noteq> field_id p)
                   (field_rows db) \<and>
               well_formed d \<and> symmetric_pairing d))"
proof (intro conjI impI ballI allI)
  assume a: "kwargs ''link_row_table'' = Some (PTable lt) \<and> database_id lt = database_id tbl \<and>
          field_value (kwargs ''link_row_related_field'') = None"
  from wf have bound: "\<forall>g \<in> set (field_rows db). field_id g < next_field_id db"
    by (simp add: well_formed_def)
  from a create_field_pairs [of kwargs lt tbl db user, OF _ _ _ bound]
  obtain f p db' relation where c:
    "create_field db user tbl kwargs = (db', Inr f)"
    "field_rows db' = field_rows db @ [f, p]"
    "next_field_id db' = next_field_id db + 2"
    "field_id f = next_field_id db" "field_id p = next_field_id db + 1"
    "field_table f = tbl" "field_table p = lt" "field_name p = table_name tbl"
    "specific f = LinkRowField \<lparr>link_row_table = Some lt,
       link_row_related_field = Some (field_id p), link_row_relation_id = relation\<rparr>"
    "specific p = LinkRowField \<lparr>link_row_table = Some tbl,
       link_row_related_field = Some (field_id f), link_row_relation_id = relation\<rparr>"
    "pair db' f = Some p" "pair db' p = Some f"
    by blast
  have wf': "well_formed db'"
    using wf c(2-5) by (rule well_formed_append)
  have "symmetric_pairing db'"
    using wf wf' s c(2) c(11) c(12) by (rule symmetric_pairing_append)
  with c wf' show "\<exists>f p db' relation.
             create_field db user tbl kwargs = (db', Inr f) \<and>
             field_rows db' = field_rows db @ [f, p] \<and>
             field_table f = tbl \<and> field_table p = lt \<and> field_name p = table_name tbl \<and>
             specific f = LinkRowField \<lparr>link_row_table = Some lt,
               link_row_related_field = Some (field_id p), link_row_relation_id = relation\<rparr> \<and>
             specific p = LinkRowField \<lparr>link_row_table = Some tbl,
               link_row_related_field = Some (field_id f), link_row_relation_id = relation\<rparr> \<and>
             pair db' f = Some p \<and> pair db' p = Some f \<and>
             well_formed db' \<and> symmetric_pairing db'"
    by blast
next
  fix f l
  assume "f \<in> set (field_rows db)" "link_row_of f = Some l"
  with wf s show "\<exists>p d. pair db f = Some p \<and> pair db p = Some f \<and>
               delete_field db f = (d, Inr ()) \<and>
               field_rows d =
                 filter (\<lambda>g. field_id g \<noteq> field_id f \<and> field_id g \<noteq> field_id p)
                   (field_rows db) \<and>
               well_formed d \<and> symmetric_pairing d"
    by (rule delete_field_paired)
qed


text \<open>
  C1. \<^verbatim>\<open>before_create\<close> of a link row field raises \<^verbatim>\<open>LinkRowTableNotProvided\<close> when the
  values have no \<^verbatim>\<open>link_row_table\<close> or a falsy one, and \<^verbatim>\<open>LinkRowTableNotInSameDatabase\<close> when
  the linked table's database id differs from the database id of the field's table. A
  creation whose \<^verbatim>\<open>before_create\<close> raises ends with that error and the database unchanged:
  no field row is created on either table.
\<close>

theorem link_row_before_create:
  "((field_values ''link_row_table'' = None \<or>
       (\<exists>v. field_values ''link_row_table'' = Some v \<and> \<not> truthy v)) \<longrightarrow>
      LinkRowFieldType_before_create tbl primary field_values order user = Inl LinkRowTableNotProvided) \<and>
   (field_values ''link_row_table'' = Some (PTable lt) \<and> database_id lt \<noteq> database_id tbl \<longrightarrow>
      LinkRowFieldType_before_create tbl primary field_values order user =
        Inl (LinkRowTableNotInSameDatabase (table_id lt) (table_id tbl))) \<and>
   (LinkRowFieldType_prepare_values db (extract_allowed kwargs (''name'' # allowed_fields)) user = Inr field_values \<and>
    LinkRowFieldType_before_create tbl False field_values (get_last_order db tbl) user = Inl e \<longrightarrow>
      create_field db user tbl kwargs = (db, Inl e)) \<and>
   (kwargs ''link_row_table'' = None \<longrightarrow>
      create_field db user tbl kwargs = (db, Inl LinkRowTableNotProvided)) \<and>
   (kwargs ''link_row_table'' = Some (PTable lt) \<and> database_id lt \<noteq> database_id tbl \<longrightarrow>
      create_field db user tbl kwargs =
        (db, Inl (LinkRowTableNotInSameDatabase (table_id lt) (table_id tbl))))"
  by (auto simp: LinkRowFieldType_before_create_def create_field.simps [of db user tbl] Let_def
      LinkRowFieldType_prepare_values_def extract_allowed_def allowed_fields_def)

theorem link_row_before_create_witness:
  "create_field example_database 1 table1 [''link_row_table'' \<mapsto> PTable table3] =
     (example_database, Inl (LinkRowTableNotInSameDatabase 3 1)) \<and>
   create_field example_database 1 table1 [''name'' \<mapsto> PStr ''A''] =
     (example_database, Inl LinkRowTableNotProvided)"
proof -
  let ?a = "extract_allowed [''link_row_table'' \<mapsto> PTable table3] (''name'' # allowed_fields)"
  let ?b = "extract_allowed [''name'' \<mapsto> PStr ''A''] (''name'' # allowed_fields)"
  have a: "?a ''link_row_table'' = Some (PTable table3)"
    by (simp add: extract_allowed_def allowed_fields_def)
  have b: "?b ''link_row_table'' = None"
    by (simp add: extract_allowed_def allowed_fields_def)
  have pa: "LinkRowFieldType_prepare_values example_database ?a 1 = Inr ?a"
    using a by (simp add: LinkRowFieldType_prepare_values_def)
  have pb: "LinkRowFieldType_prepare_values example_database ?b 1 = Inr ?b"
    using b by (simp add: LinkRowFieldType_prepare_values_def)
  have d: "database_id table3 \<noteq> database_id table1"
    by (simp add: table1_def table3_def)
  have ids: "table_id table3 = 3" "table_id table1 = 1"
    by (simp_all add: table1_def table3_def)
  from link_row_before_create
         [of ?a table1 False "get_last_order example_database table1" 1 table3
             example_database "[''link_row_table'' \<mapsto> PTable table3]"
             "LinkRowTableNotInSameDatabase 3 1"]
       a pa d ids
  have first: "create_field example_database 1 table1 [''link_row_table'' \<mapsto> PTable table3] =
     (example_database, Inl (LinkRowTableNotInSameDatabase 3 1))"
    by simp
  from link_row_before_create
         [of ?b table1 False "get_last_order example_database table1" 1 table3
             example_database "[''name'' \<mapsto> PStr ''A'']" LinkRowTableNotProvided]
       b pb
  have "create_field example_database 1 table1 [''name'' \<mapsto> PStr ''A''] =
     (example_database, Inl LinkRowTableNotProvided)"
    by simp
  with first show ?thesis
    by simp
qed

theorem link_row_pairing_witness:
  "\<exists>f p db' d.
     create_field example_database 1 table1
       [''name'' \<mapsto> PStr ''A'', ''link_row_table'' \<mapsto> PTable table2] = (db', Inr f) \<and>
     field_rows db' = [f, p] \<and> field_table p = table2 \<and> field_name p = ''Table1'' \<and>
     pair db' f = Some p \<and> pair db' p = Some f \<and>
     delete_field db' f = (d, Inr ()) \<and> field_rows d = []"
proof -
  let ?kwargs = "[''name'' \<mapsto> PStr ''A'', ''link_row_table'' \<mapsto> PTable table2]"
  have wf: "well_formed example_database"
    by (simp add: well_formed_def example_database_def)
  have s: "symmetric_pairing example_database"
    by (simp add: symmetric_pairing_def example_database_def)
  have a: "?kwargs ''link_row_table'' = Some (PTable table2) \<and>
           database_id table2 = database_id table1 \<and>
           field_value (?kwargs ''link_row_related_field'') = None"
    by (simp add: table1_def table2_def field_value_def)
  from link_row_pairing [OF wf s, of ?kwargs table2 table1 1] a
  obtain f p db' where c:
    "create_field example_database 1 table1 ?kwargs = (db', Inr f)"
    "field_rows db' = field_rows example_database @ [f, p]"
    "field_table p = table2" "field_name p = table_name table1"
    "pair db' f = Some p" "pair db' p = Some f"
    "well_formed db'" "symmetric_pairing db'"
    by blast
  from c(2) have rows: "field_rows db' = [f, p]"
    by (simp add: example_database_def)
  from c(5) obtain l where l: "link_row_of f = Some l"
    by (auto dest: pair_SomeD)
  from link_row_pairing [OF c(7) c(8), of ?kwargs table2 table1 1] rows l
  obtain q d where q: "pair db' f = Some q" "delete_field db' f = (d, Inr ())"
    "field_rows d = filter (\<lambda>g. field_id g \<noteq> field_id f \<and> field_id g \<noteq> field_id q)
                      (field_rows db')"
    by fastforce
  from q(1) c(5) have "q = p"
    by simp
  with q(3) rows have "field_rows d = []"
    by simp
  with c rows q(2) show ?thesis
    by (auto simp: table1_def)
qed

end
